theory Spec2Isabelle
  imports Complex_Main "HOL-Library.Sublist"
begin

section \<open>Data model\<close>

text \<open>
  The document tree arrives as parsed JSON. A JSON number is an IEEE double; it is
  modelled as the \<^typ>\<open>real\<close> it denotes, and the one arithmetic operation of the code,
  the product in \<open>rgbaToHex\<close>, is rounded to a double as the machine rounds it. An
  attribute that may be missing is an \<^typ>\<open>'a option\<close> (\<open>None\<close> is JavaScript's
  \<open>undefined\<close>), a JSON string a \<^typ>\<open>string\<close>. The attributes \<open>name\<close> and \<open>type\<close> are
  read without a guard by the code and are always present; \<open>id\<close> and \<open>type\<close> are the
  fields \<open>node_id\<close> and \<open>node_type\<close>. A colour holds the channels \<open>r\<close>, \<open>g\<close> and \<open>b\<close>
  the code reads.
\<close>

record color =
  col_r :: real
  col_g :: real
  col_b :: real

record paint =
  paint_type :: string
  color :: "color option"
  opacity :: "real option"
  visible :: "bool option"

record bbox =
  width :: "real option"
  height :: "real option"

record node_attrs =
  node_id :: string
  name :: string
  node_type :: string
  absoluteBoundingBox :: "bbox option"
  cornerRadius :: "real option"
  fills :: "paint list option"
  strokes :: "paint list option"
  characters :: "string option"
  fontSize :: "real option"
  fontWeight :: "real option"
  textAlignHorizontal :: "string option"

datatype node = Node (attrs: node_attrs) (children: "node list option")

text \<open>The record returned by \<open>extractComponentStyle\<close>. The debug field \<open>fillDebug\<close> is
  \<open>JSON.stringify\<close> of the first fill, or the literal \<open>'No fills'\<close>; it is kept here as the
  fill itself, with \<open>None\<close> for the literal.\<close>

record style_record =
  style_type :: string
  style_text :: string
  style_width :: real
  style_height :: real
  style_backgroundColor :: string
  style_borderRadius :: real
  style_color :: string
  style_fontSize :: real
  style_fontWeight :: real
  style_textAlign :: string
  style_fillDebug :: "paint option"

text \<open>The object pushed by \<open>extractComponents\<close>.\<close>

record descriptor =
  d_id :: string
  d_name :: string
  d_type :: string
  d_width :: "real option"
  d_height :: "real option"
  d_fills :: "paint list option"
  d_strokes :: "paint list option"
  d_cornerRadius :: "real option"
  d_characters :: "string option"

section \<open>JavaScript primitives used by the code\<close>

text \<open>\<open>v || d\<close> on an optional number: \<open>undefined\<close> and \<open>0\<close> are falsy.\<close>

definition orNum :: "real option \<Rightarrow> real \<Rightarrow> real" where
  "orNum v d = (case v of None \<Rightarrow> d | Some x \<Rightarrow> if x = 0 then d else x)"

text \<open>Truthiness of an optional string: \<open>undefined\<close>, \<open>null\<close> and \<open>''\<close> are falsy.\<close>

definition truthyStr :: "string option \<Rightarrow> bool" where
  "truthyStr v = (case v of None \<Rightarrow> False | Some s \<Rightarrow> s \<noteq> [])"

definition orStr :: "string option \<Rightarrow> string \<Rightarrow> string" where
  "orStr v d = (case v of None \<Rightarrow> d | Some s \<Rightarrow> if s \<noteq> [] then s else d)"

text \<open>\<open>Math.round\<close>: the nearest integer, a tie going up. The result is exact on every
  finite double.\<close>

definition Math_round :: "real \<Rightarrow> int" where
  "Math_round x = \<lfloor>x + 1 / 2\<rfloor>"

text \<open>
  Case conversion. A string is a list of bytes and only the ASCII letters change case.
  JavaScript also converts letters outside ASCII; on the way to lower case the only ASCII
  letters this can produce are \<open>k\<close> (from the Kelvin sign) and an \<open>i\<close> followed by a
  combining dot, and no word the code looks for contains a \<open>k\<close> or ends in \<open>i\<close>, so the
  searches of the code give the same answers on both readings.
\<close>

definition lowerChar :: "char \<Rightarrow> char" where
  "lowerChar c =
     (case map_of (zip ''ABCDEFGHIJKLMNOPQRSTUVWXYZ'' ''abcdefghijklmnopqrstuvwxyz'') c of
        Some l \<Rightarrow> l | None \<Rightarrow> c)"

definition upperChar :: "char \<Rightarrow> char" where
  "upperChar c =
     (case map_of (zip ''abcdefghijklmnopqrstuvwxyz'' ''ABCDEFGHIJKLMNOPQRSTUVWXYZ'') c of
        Some u \<Rightarrow> u | None \<Rightarrow> c)"

definition toLowerCase :: "string \<Rightarrow> string" where
  "toLowerCase s = map lowerChar s"

definition toUpperCase :: "string \<Rightarrow> string" where
  "toUpperCase s = map upperChar s"

text \<open>\<open>s.includes(t)\<close>: \<open>t\<close> occurs in \<open>s\<close> as a contiguous run.\<close>

fun startsWith :: "string \<Rightarrow> string \<Rightarrow> bool" where
  "startsWith s [] = True"
| "startsWith [] (c # t) = False"
| "startsWith (x # s) (c # t) = (x = c \<and> startsWith s t)"

fun includes_str :: "string \<Rightarrow> string \<Rightarrow> bool" where
  "includes_str [] t = (t = [])"
| "includes_str (x # s) t = (startsWith (x # s) t \<or> includes_str s t)"

text \<open>\<open>n.toString(16)\<close> on an integral number, and \<open>padStart(2, '0')\<close>.\<close>

definition hexDigit :: "nat \<Rightarrow> char" where
  "hexDigit d = ''0123456789abcdef'' ! (d mod 16)"

fun hexDigits :: "nat \<Rightarrow> string" where
  "hexDigits n = (if n < 16 then [hexDigit n] else hexDigits (n div 16) @ [hexDigit (n mod 16)])"

declare hexDigits.simps [simp del]

definition toString16 :: "int \<Rightarrow> string" where
  "toString16 i = (if i < 0 then CHR ''-'' # hexDigits (nat (- i)) else hexDigits (nat i))"

definition padStart :: "nat \<Rightarrow> char \<Rightarrow> string \<Rightarrow> string" where
  "padStart n c s = replicate (n - length s) c @ s"

section \<open>Tree search\<close>

text \<open>\<open>findNodeByName\<close> of the demo server and of the tool server (the two are the same
  function): the loop over \<open>node.children\<close> is \<open>findNodeByName_loop\<close>.\<close>

fun findNodeByName :: "node \<Rightarrow> string \<Rightarrow> node option"
  and findNodeByName_loop :: "node list \<Rightarrow> string \<Rightarrow> node option" where
  "findNodeByName (Node a ch) nm =
     (if name a = nm then Some (Node a ch)
      else (case ch of None \<Rightarrow> None | Some cs \<Rightarrow> findNodeByName_loop cs nm))"
| "findNodeByName_loop [] nm = None"
| "findNodeByName_loop (child # rest) nm =
     (case findNodeByName child nm of
        Some found \<Rightarrow> Some found
      | None \<Rightarrow> findNodeByName_loop rest nm)"

fun findTextNode :: "node \<Rightarrow> node option"
  and findTextNode_loop :: "node list \<Rightarrow> node option" where
  "findTextNode (Node a ch) =
     (if node_type a = ''TEXT'' then Some (Node a ch)
      else (case ch of None \<Rightarrow> None | Some cs \<Rightarrow> findTextNode_loop cs))"
| "findTextNode_loop [] = None"
| "findTextNode_loop (child # rest) =
     (case findTextNode child of
        Some textNode \<Rightarrow> Some textNode
      | None \<Rightarrow> findTextNode_loop rest)"

fun extractText :: "node \<Rightarrow> string option"
  and extractText_loop :: "node list \<Rightarrow> string option" where
  "extractText (Node a ch) =
     (if truthyStr (characters a) then characters a
      else (case ch of None \<Rightarrow> None | Some cs \<Rightarrow> extractText_loop cs))"
| "extractText_loop [] = None"
| "extractText_loop (child # rest) =
     (let text = extractText child
      in if truthyStr text then text else extractText_loop rest)"

text \<open>The nodes of a tree in document order (depth first, a node before its children,
  children left to right): the order the specification calls pre-order.\<close>

fun preorder :: "node \<Rightarrow> node list"
  and preorder_list :: "node list \<Rightarrow> node list" where
  "preorder (Node a ch) =
     Node a ch # (case ch of None \<Rightarrow> [] | Some cs \<Rightarrow> preorder_list cs)"
| "preorder_list [] = []"
| "preorder_list (c # cs) = preorder c @ preorder_list cs"

section \<open>Double precision arithmetic\<close>

text \<open>
  A finite double is \<open>m * 2^q\<close> with \<open>|m| < 2^53\<close> and \<open>q \<ge> -1074\<close>. The result of an
  arithmetic operation is the exact result rounded to the nearest such number, a tie
  going to the even \<open>m\<close>. \<open>bitLength n\<close> is the number of binary digits of \<open>n\<close>,
  \<open>binade x\<close> the integer \<open>e\<close> with \<open>2^e \<le> x < 2^(e+1)\<close> for a positive \<open>x\<close>, and
  \<open>roundToDouble\<close> the rounding with the exponent unbounded above: a result of
  magnitude \<open>2^1024\<close> or more stands for an infinity.
\<close>

fun bitLength :: "nat \<Rightarrow> nat" where
  "bitLength n = (if n = 0 then 0 else Suc (bitLength (n div 2)))"

declare bitLength.simps [simp del]

definition binade :: "real \<Rightarrow> int" where
  "binade x =
     (if 1 \<le> x then int (bitLength (nat \<lfloor>x\<rfloor>)) - 1
      else - int (bitLength (nat (\<lceil>1 / x\<rceil> - 1))))"

definition pow2 :: "int \<Rightarrow> real" where
  "pow2 k = (if 0 \<le> k then 2 ^ nat k else 1 / 2 ^ nat (- k))"

definition roundHalfEven :: "real \<Rightarrow> int" where
  "roundHalfEven s =
     (let f = \<lfloor>s\<rfloor>; d = s - of_int f
      in if d < 1 / 2 then f
         else if 1 / 2 < d then f + 1
         else if even f then f else f + 1)"

definition roundToDouble :: "real \<Rightarrow> real" where
  "roundToDouble x =
     (if x = 0 then 0
      else (let a = \<bar>x\<bar>;
                q = max (binade a - 52) (- 1074);
                n = roundHalfEven (a / pow2 q)
            in sgn x * (of_int n * pow2 q)))"

text \<open>\<open>x * y\<close> on doubles.\<close>

definition double_mul :: "real \<Rightarrow> real \<Rightarrow> real" where
  "double_mul x y = roundToDouble (x * y)"

section \<open>Colour conversion\<close>

text \<open>\<open>Math.round(c * 255).toString(16).padStart(2, '0')\<close>. When the product overflows,
  \<open>Math.round\<close> returns the infinity and \<open>toString\<close> prints its name.\<close>

definition hex2 :: "real \<Rightarrow> string" where
  "hex2 c =
     (let p = double_mul c 255
      in if 2 ^ 1024 \<le> \<bar>p\<bar>
         then padStart 2 (CHR ''0'') (if p < 0 then ''-Infinity'' else ''Infinity'')
         else padStart 2 (CHR ''0'') (toString16 (Math_round p)))"

definition rgbaToHex :: "color \<Rightarrow> string" where
  "rgbaToHex c = CHR ''#'' # hex2 (col_r c) @ hex2 (col_g c) @ hex2 (col_b c)"

section \<open>Style extraction\<close>

text \<open>\<open>node.fills && node.fills.length > 0 && node.fills[0].color\<close>: the colour of the
  first fill, when there is one.\<close>

definition firstFillColor :: "node_attrs \<Rightarrow> color option" where
  "firstFillColor a = (case fills a of Some (fill # _) \<Rightarrow> color fill | _ \<Rightarrow> None)"

text \<open>The background block of \<open>extractComponentStyle\<close>: the values of the locals
  \<open>backgroundColor\<close>, \<open>hasBackground\<close> and \<open>fillDebug\<close> after it.\<close>

definition extractBackground :: "node_attrs \<Rightarrow> string \<times> bool \<times> paint option" where
  "extractBackground a =
     (case fills a of
        Some (fill # _) \<Rightarrow>
          (let isVisible = (visible fill = None \<or> visible fill = Some True)
           in (case color fill of
                 Some c \<Rightarrow>
                   if isVisible \<and> paint_type fill = ''SOLID''
                   then (let backgroundColor = rgbaToHex c;
                             opac = (case opacity fill of Some v \<Rightarrow> v | None \<Rightarrow> 1)
                         in (backgroundColor,
                             opac > 0 \<and> backgroundColor \<noteq> ''transparent'',
                             Some fill))
                   else (''transparent'', False, Some fill)
               | None \<Rightarrow> (''transparent'', False, Some fill)))
      | _ \<Rightarrow> (''transparent'', False, None))"

text \<open>The text colour block.\<close>

definition extractTextColor :: "node \<Rightarrow> string" where
  "extractTextColor nd =
     (case (if node_type (attrs nd) = ''TEXT'' then firstFillColor (attrs nd) else None) of
        Some c \<Rightarrow> rgbaToHex c
      | None \<Rightarrow>
          (case children nd of
             None \<Rightarrow> ''#000000''
           | Some _ \<Rightarrow>
               (case findTextNode nd of
                  None \<Rightarrow> ''#000000''
                | Some textNode \<Rightarrow>
                    (case firstFillColor (attrs textNode) of
                       Some c \<Rightarrow> rgbaToHex c
                     | None \<Rightarrow> ''#000000''))))"

text \<open>The font block: \<open>fontSize\<close>, \<open>fontWeight\<close> and \<open>textAlign\<close>.\<close>

definition extractFont :: "node \<Rightarrow> real \<times> real \<times> string" where
  "extractFont nd =
     (case (if node_type (attrs nd) = ''TEXT'' then Some nd else findTextNode nd) of
        Some textNode \<Rightarrow>
          (orNum (fontSize (attrs textNode)) 16,
           orNum (fontWeight (attrs textNode)) 400,
           toLowerCase (orStr (textAlignHorizontal (attrs textNode)) ''LEFT''))
      | None \<Rightarrow> (16, 400, ''left''))"

text \<open>The type block: the name tier, then the visual tier.\<close>

definition detectType :: "node_attrs \<Rightarrow> real \<Rightarrow> bool \<Rightarrow> real \<Rightarrow> string" where
  "detectType a cornerRad hasBackground fontWt =
     (let nameLower = toLowerCase (name a)
      in if includes_str nameLower ''button'' \<or> includes_str nameLower ''btn'' then ''button''
         else if includes_str nameLower ''text'' \<or> includes_str nameLower ''label''
                 \<or> includes_str nameLower ''title'' \<or> includes_str nameLower ''heading''
           then ''text''
         else if includes_str nameLower ''input'' \<or> includes_str nameLower ''textbox''
                 \<or> includes_str nameLower ''field''
           then ''input''
         else (let isFrame = (node_type a = ''FRAME'' \<or> node_type a = ''COMPONENT''
                                \<or> node_type a = ''INSTANCE'');
                   hasRoundedCorners = (cornerRad \<ge> 4);
                   hasBorder = (case strokes a of Some ss \<Rightarrow> ss \<noteq> [] | None \<Rightarrow> False);
                   isButtonLike = (isFrame \<and> (hasBackground \<or> hasBorder)
                                     \<and> (hasRoundedCorners \<or> fontWt \<ge> 600))
               in if node_type a = ''TEXT'' then ''text''
                  else if isButtonLike then ''button''
                  else ''text''))"

definition extractComponentStyle :: "node \<Rightarrow> style_record" where
  "extractComponentStyle nd =
     (let a = attrs nd;
          w = orNum (Option.bind (absoluteBoundingBox a) width) 200;
          h = orNum (Option.bind (absoluteBoundingBox a) height) 50;
          cornerRad = orNum (cornerRadius a) 0;
          (backgroundColor, hasBackground, fillDebug) = extractBackground a;
          textColor = extractTextColor nd;
          text = orStr (extractText nd) ''Text'';
          (fontSz, fontWt, textAlign) = extractFont nd;
          ty = detectType a cornerRad hasBackground fontWt
      in \<lparr> style_type = ty, style_text = text, style_width = w, style_height = h,
           style_backgroundColor = backgroundColor, style_borderRadius = cornerRad,
           style_color = textColor, style_fontSize = fontSz, style_fontWeight = fontWt,
           style_textAlign = textAlign, style_fillDebug = fillDebug \<rparr>)"

section \<open>Component enumeration\<close>

definition describe :: "node_attrs \<Rightarrow> descriptor" where
  "describe a =
     \<lparr> d_id = node_id a, d_name = name a, d_type = node_type a,
       d_width = Option.bind (absoluteBoundingBox a) width,
       d_height = Option.bind (absoluteBoundingBox a) height,
       d_fills = fills a, d_strokes = strokes a, d_cornerRadius = cornerRadius a,
       d_characters = characters a \<rparr>"

definition collected :: "node_attrs \<Rightarrow> bool" where
  "collected a =
     (node_type a = ''COMPONENT'' \<or> node_type a = ''FRAME'' \<or> node_type a = ''RECTANGLE'')"

text \<open>\<open>extractComponents(node, components)\<close> pushes onto the shared array and returns it;
  the array is threaded through as the second argument and result.\<close>

fun extractComponents :: "node \<Rightarrow> descriptor list \<Rightarrow> descriptor list"
  and extractComponents_forEach :: "node list \<Rightarrow> descriptor list \<Rightarrow> descriptor list" where
  "extractComponents (Node a ch) components =
     (case ch of
        None \<Rightarrow> (if collected a then components @ [describe a] else components)
      | Some cs \<Rightarrow>
          extractComponents_forEach cs
            (if collected a then components @ [describe a] else components))"
| "extractComponents_forEach [] components = components"
| "extractComponents_forEach (child # rest) components =
     extractComponents_forEach rest (extractComponents child components)"

section \<open>Framework component generator\<close>

definition isAlnum :: "char \<Rightarrow> bool" where
  "isAlnum c =
     (c \<in> set ''abcdefghijklmnopqrstuvwxyzABCDEFGHIJKLMNOPQRSTUVWXYZ0123456789'')"

text \<open>\<open>str.replace(/[^a-zA-Z0-9]/g, ' ')\<close>. A character outside ASCII becomes one space per
  byte here and one per UTF-16 unit in JavaScript; the words between the spaces are the
  same.\<close>

definition replaceNonAlnum :: "string \<Rightarrow> string" where
  "replaceNonAlnum s = map (\<lambda>c. if isAlnum c then c else CHR '' '') s"

text \<open>\<open>s.split(sep)\<close> for a one-character separator: the pieces between the separators,
  the empty ones included.\<close>

fun split_on :: "char \<Rightarrow> string \<Rightarrow> string list" where
  "split_on sep [] = [[]]"
| "split_on sep (c # s) =
     (if c = sep then [] # split_on sep s
      else (case split_on sep s of
              w # ws \<Rightarrow> (c # w) # ws
            | [] \<Rightarrow> [[c]]))"

text \<open>\<open>word.charAt(0).toUpperCase() + word.slice(1).toLowerCase()\<close>.\<close>

definition capitalize :: "string \<Rightarrow> string" where
  "capitalize word = toUpperCase (take 1 word) @ toLowerCase (drop 1 word)"

definition toPascalCase :: "string \<Rightarrow> string" where
  "toPascalCase str = concat (map capitalize (split_on (CHR '' '') (replaceNonAlnum str)))"

text \<open>The words of a name as the specification describes them: the maximal runs of
  alphanumeric characters, left to right. \<open>cur\<close> is the run being read.\<close>

fun alnum_runs :: "string \<Rightarrow> string \<Rightarrow> string list" where
  "alnum_runs cur [] = (if cur = [] then [] else [cur])"
| "alnum_runs cur (c # s) =
     (if isAlnum c then alnum_runs (cur @ [c]) s
      else (if cur = [] then [] else [cur]) @ alnum_runs [] s)"

definition spec_capitalize :: "string \<Rightarrow> string" where
  "spec_capitalize w = (case w of [] \<Rightarrow> [] | c # cs \<Rightarrow> upperChar c # map lowerChar cs)"

definition spec_identifier :: "string \<Rightarrow> string" where
  "spec_identifier s = concat (map spec_capitalize (alnum_runs [] s))"

text \<open>The values \<open>generateReactCode\<close> derives from the node before it fills the template:
  width, height, cornerRadius, backgroundColor and text.\<close>

definition reactStyle :: "node \<Rightarrow> real \<times> real \<times> real \<times> string \<times> string" where
  "reactStyle nd =
     (let a = attrs nd;
          w = orNum (Option.bind (absoluteBoundingBox a) width) 200;
          h = orNum (Option.bind (absoluteBoundingBox a) height) 50;
          cornerRad = orNum (cornerRadius a) 8;
          backgroundColor = (case firstFillColor a of Some c \<Rightarrow> rgbaToHex c | None \<Rightarrow> ''#007AFF'');
          text = orStr (extractText nd) ''Button''
      in (w, h, cornerRad, backgroundColor, text))"

text \<open>The template literal, line by line. JavaScript's conversion of a number to a
  string inside \<open>${...}\<close> is a language primitive; it is the parameter \<open>numToString\<close>.\<close>

definition apostrophe :: string where
  "apostrophe = [CHR 0x27]"

definition generateReactCode :: "(real \<Rightarrow> string) \<Rightarrow> node \<Rightarrow> string" where
  "generateReactCode numToString nd =
     (case reactStyle nd of (w, h, cornerRad, backgroundColor, text) \<Rightarrow>
        concat
          [''import React from 'react';\<newline>'',
           ''\<newline>'',
           ''export function '' @ toPascalCase (name (attrs nd)) @ ''({ onClick, children }) {\<newline>'',
           ''  return (\<newline>'',
           ''    <button\<newline>'',
           ''      onClick={onClick}\<newline>'',
           ''      style={{\<newline>'',
           ''        width: '' @ apostrophe @ numToString w @ ''px'' @ apostrophe @ '',\<newline>'',
           ''        height: '' @ apostrophe @ numToString h @ ''px'' @ apostrophe @ '',\<newline>'',
           ''        backgroundColor: '' @ apostrophe @ backgroundColor @ apostrophe @ '',\<newline>'',
           ''        color: '#FFFFFF',\<newline>'',
           ''        border: 'none',\<newline>'',
           ''        borderRadius: '' @ apostrophe @ numToString cornerRad @ ''px'' @ apostrophe @ '',\<newline>'',
           ''        fontSize: '16px',\<newline>'',
           ''        fontWeight: '600',\<newline>'',
           ''        cursor: 'pointer',\<newline>'',
           ''        transition: 'all 0.2s ease',\<newline>'',
           ''      }}\<newline>'',
           ''      onMouseEnter={(e) => {\<newline>'',
           ''        e.target.style.opacity = '0.8';\<newline>'',
           ''        e.target.style.transform = 'scale(1.02)';\<newline>'',
           ''      }}\<newline>'',
           ''      onMouseLeave={(e) => {\<newline>'',
           ''        e.target.style.opacity = '1';\<newline>'',
           ''        e.target.style.transform = 'scale(1)';\<newline>'',
           ''      }}\<newline>'',
           ''    >\<newline>'',
           ''      {children || '' @ apostrophe @ text @ apostrophe @ ''}\<newline>'',
           ''    </button>\<newline>'',
           ''  );\<newline>'',
           ''}''])"

section \<open>Request handlers\<close>

text \<open>
  The HTTP client is a collaborator: \<open>axios.get(url, {headers: {'X-Figma-Token': token}})\<close>
  either throws an error, of which the handlers read \<open>message\<close> and
  \<open>response?.data?.err\<close>, or returns a response, of which they read \<open>data.document\<close>.
  A handler is given the client as a function of the URL and the token, and returns its
  outcome together with the list of URLs it requested.
\<close>

record axios_error =
  message :: string
  response_data_err :: "string option"

type_synonym axios_get = "string \<Rightarrow> string \<Rightarrow> axios_error + node"

text \<open>The JSON bodies the demo server sends: \<open>{error, details}\<close> and
  \<open>{success: true, component, message}\<close>.\<close>

datatype response_body =
  ErrorBody string "string option"
| SuccessBody style_record string

record http_response =
  status :: nat
  body :: response_body

definition quote_mark :: string where
  "quote_mark = [CHR 0x22]"

definition files_url :: "string \<Rightarrow> string" where
  "files_url fileKey = ''https://api.figma.com/v1/files/'' @ fileKey"

text \<open>\<open>app.post('/api/fetch-component', ...)\<close> of the demo server.\<close>

definition fetch_component ::
  "string option \<Rightarrow> axios_get \<Rightarrow> string option \<Rightarrow> string option \<Rightarrow> http_response \<times> string list" where
  "fetch_component FIGMA_TOKEN get fileKey componentName =
     (case FIGMA_TOKEN of
        None \<Rightarrow> (\<lparr>status = 500, body = ErrorBody ''FIGMA_TOKEN not configured'' None\<rparr>, [])
      | Some token \<Rightarrow>
          if token = []
          then (\<lparr>status = 500, body = ErrorBody ''FIGMA_TOKEN not configured'' None\<rparr>, [])
          else if \<not> truthyStr fileKey \<or> \<not> truthyStr componentName
          then (\<lparr>status = 400, body = ErrorBody ''fileKey and componentName are required'' None\<rparr>, [])
          else (let fk = orStr fileKey []; cn = orStr componentName []
                in case get (files_url fk) token of
                     Inl error \<Rightarrow>
                       (\<lparr>status = 500,
                         body = ErrorBody ''Failed to fetch from Figma''
                                  (Some (orStr (response_data_err error) (message error)))\<rparr>,
                        [files_url fk])
                   | Inr document \<Rightarrow>
                       (case findNodeByName document cn of
                          None \<Rightarrow>
                            (\<lparr>status = 404,
                              body = ErrorBody (''Component '' @ quote_mark @ cn @ quote_mark
                                                 @ '' not found'') None\<rparr>,
                             [files_url fk])
                        | Some component \<Rightarrow>
                            (\<lparr>status = 200,
                              body = SuccessBody (extractComponentStyle component)
                                       (''Found '' @ quote_mark @ cn @ quote_mark
                                          @ '' in Figma!'')\<rparr>,
                             [files_url fk]))))"

text \<open>\<open>generateReactComponent\<close> of the tool server: the thrown \<open>Error\<close>'s message on the
  left, the generated code on the right. The not-found error is thrown inside the
  \<open>try\<close> block, so the \<open>catch\<close> wraps it as it wraps the client's error.\<close>

definition generateReactComponent ::
  "(real \<Rightarrow> string) \<Rightarrow> string \<Rightarrow> axios_get \<Rightarrow> string \<Rightarrow> string \<Rightarrow> (string + string) \<times> string list" where
  "generateReactComponent numToString token get fileKey nodeName =
     (case get (files_url fileKey) token of
        Inl error \<Rightarrow>
          (Inl (''Failed to generate component: '' @ message error), [files_url fileKey])
      | Inr document \<Rightarrow>
          (case findNodeByName document nodeName of
             None \<Rightarrow>
               (Inl (''Failed to generate component: ''
                       @ (''Component '' @ quote_mark @ nodeName @ quote_mark
                            @ '' not found in Figma file'')),
                [files_url fileKey])
           | Some component \<Rightarrow>
               (Inr (generateReactCode numToString component), [files_url fileKey])))"

text \<open>The \<open>CallToolRequestSchema\<close> handler, for the tool \<open>generate_react_component\<close>.\<close>

definition callTool_generate_react_component ::
  "(real \<Rightarrow> string) \<Rightarrow> string option \<Rightarrow> axios_get \<Rightarrow> string \<Rightarrow> string \<Rightarrow> (string + string) \<times> string list" where
  "callTool_generate_react_component numToString FIGMA_TOKEN get fileKey nodeName =
     (case FIGMA_TOKEN of
        None \<Rightarrow> (Inl ''FIGMA_TOKEN environment variable is required'', [])
      | Some token \<Rightarrow>
          if token = [] then (Inl ''FIGMA_TOKEN environment variable is required'', [])
          else generateReactComponent numToString token get fileKey nodeName)"

section \<open>Specification-level notions and example documents\<close>

text \<open>A node with the given id, name and type, every optional attribute absent.\<close>

definition bare :: "string \<Rightarrow> string \<Rightarrow> string \<Rightarrow> node_attrs" where
  "bare i n t =
     \<lparr> node_id = i, name = n, node_type = t, absoluteBoundingBox = None, cornerRadius = None,
       fills = None, strokes = None, characters = None, fontSize = None, fontWeight = None,
       textAlignHorizontal = None \<rparr>"

text \<open>A document in which the name \<open>Btn\<close> occurs twice: first, in document order,
  on a nested text node, then on a frame directly under the root.\<close>

definition ex_doc :: node where
  "ex_doc =
     Node (bare ''0:0'' ''Document'' ''DOCUMENT'')
       (Some [Node (bare ''1:1'' ''Group'' ''FRAME'')
                (Some [Node (bare ''1:2'' ''Btn'' ''TEXT'') None]),
              Node (bare ''1:3'' ''Btn'' ''FRAME'') (Some [])])"

text \<open>A channel as the specification states it, \<open>round(c * 255)\<close> clamped to
  \<open>[0, 255]\<close>, the product being the product of doubles, and its two lowercase
  hexadecimal digits. \<open>double_of_0_3\<close> is the double that the JSON number \<open>0.3\<close> denotes.\<close>

definition spec_channel :: "real \<Rightarrow> nat" where
  "spec_channel x = nat (max 0 (min 255 (round (double_mul x 255))))"

definition double_of_0_3 :: real where
  "double_of_0_3 = 5404319552844595 / 2 ^ 54"

definition spec_two_digits :: "nat \<Rightarrow> string" where
  "spec_two_digits n = [hexDigit (n div 16), hexDigit (n mod 16)]"

text \<open>A component whose only child is a text node.\<close>

definition ex_component_with_text :: node where
  "ex_component_with_text =
     Node (bare ''2:1'' ''Card'' ''COMPONENT'')
       (Some [Node ((bare ''2:2'' ''Caption'' ''TEXT'')\<lparr>characters := Some ''Hello''\<rparr>) None])"

text \<open>The first non-empty \<open>characters\<close> value along a list of nodes.\<close>

fun first_characters :: "node list \<Rightarrow> string option" where
  "first_characters [] = None"
| "first_characters (x # xs) =
     (case characters (attrs x) of
        Some s \<Rightarrow> if s \<noteq> [] then Some s else first_characters xs
      | None \<Rightarrow> first_characters xs)"

text \<open>Text nodes whose \<open>characters\<close> attribute is present and empty.\<close>

definition ex_empty_text :: node where
  "ex_empty_text = Node ((bare ''3:1'' ''Caption'' ''TEXT'')\<lparr>characters := Some []\<rparr>) None"

definition ex_empty_text_parent :: node where
  "ex_empty_text_parent =
     Node ((bare ''3:2'' ''Row'' ''FRAME'')\<lparr>characters := Some []\<rparr>)
       (Some [Node ((bare ''3:3'' ''Empty'' ''TEXT'')\<lparr>characters := Some []\<rparr>) None,
              Node ((bare ''3:4'' ''Greeting'' ''TEXT'')\<lparr>characters := Some ''Hello''\<rparr>) None])"

text \<open>The three groups of the name tier: a word of the group occurs, as a contiguous
  run, in the lowercased name.\<close>

definition names_button :: "string \<Rightarrow> bool" where
  "names_button nm = (sublist ''button'' (toLowerCase nm) \<or> sublist ''btn'' (toLowerCase nm))"

definition names_text :: "string \<Rightarrow> bool" where
  "names_text nm =
     (sublist ''text'' (toLowerCase nm) \<or> sublist ''label'' (toLowerCase nm)
      \<or> sublist ''title'' (toLowerCase nm) \<or> sublist ''heading'' (toLowerCase nm))"

definition names_input :: "string \<Rightarrow> bool" where
  "names_input nm =
     (sublist ''input'' (toLowerCase nm) \<or> sublist ''textbox'' (toLowerCase nm)
      \<or> sublist ''field'' (toLowerCase nm))"

text \<open>Fills and nodes used as examples.\<close>

definition white_fill :: paint where
  "white_fill = \<lparr> paint_type = ''SOLID'', color = Some \<lparr>col_r = 1, col_g = 1, col_b = 1\<rparr>,
                   opacity = None, visible = Some True \<rparr>"

definition ex_card_filled :: node where
  "ex_card_filled =
     Node ((bare ''4:1'' ''Card'' ''FRAME'')\<lparr>cornerRadius := Some 8, fills := Some [white_fill]\<rparr>) None"

definition ex_card_plain :: node where
  "ex_card_plain =
     Node ((bare ''4:2'' ''Card'' ''FRAME'')
             \<lparr>cornerRadius := Some 0, fills := Some [], strokes := Some []\<rparr>) None"

definition ex_submit :: node where
  "ex_submit = Node ((bare ''4:3'' ''Submit Button'' ''TEXT'')\<lparr>characters := Some ''Go''\<rparr>) None"

definition hidden_fill :: paint where
  "hidden_fill = \<lparr> paint_type = ''SOLID'', color = Some \<lparr>col_r = 1, col_g = 0, col_b = 0\<rparr>,
                    opacity = None, visible = Some False \<rparr>"

definition ex_field :: node where
  "ex_field = Node ((bare ''4:4'' ''Email Field'' ''FRAME'')\<lparr>fills := Some [white_fill]\<rparr>) None"

definition ex_textbox :: node where
  "ex_textbox = Node (bare ''4:5'' ''Textbox'' ''FRAME'') None"

definition ex_page_title :: node where
  "ex_page_title =
     Node ((bare ''4:6'' ''Page Title'' ''FRAME'')\<lparr>cornerRadius := Some 8, fills := Some [white_fill]\<rparr>) None"

definition ex_box_no_fills :: node_attrs where
  "ex_box_no_fills = bare ''5:1'' ''Box'' ''FRAME''"

definition ex_box_hidden_first :: node_attrs where
  "ex_box_hidden_first = (bare ''5:2'' ''Box'' ''FRAME'')\<lparr>fills := Some [hidden_fill, white_fill]\<rparr>"

definition ex_box_white_first :: node_attrs where
  "ex_box_white_first = (bare ''5:3'' ''Box'' ''FRAME'')\<lparr>fills := Some [white_fill, hidden_fill]\<rparr>"

text \<open>A frame whose box, corner radius and text metrics are all present and zero.\<close>

definition ex_zero_box :: node where
  "ex_zero_box =
     Node ((bare ''6:1'' ''Badge'' ''FRAME'')
             \<lparr>absoluteBoundingBox := Some \<lparr>width = Some 0, height = Some 0\<rparr>,
              cornerRadius := Some 0\<rparr>)
       (Some [Node ((bare ''6:2'' ''Caption'' ''TEXT'')
                      \<lparr>characters := Some ''New'', fontSize := Some 0, fontWeight := Some 0\<rparr>) None])"

text \<open>A number-to-string conversion for the examples: the decimal digits of the integer
  part, which is what JavaScript prints for the non-negative integers the examples use.\<close>

fun decimalDigits :: "nat \<Rightarrow> string" where
  "decimalDigits n =
     (if n < 10 then [''0123456789'' ! n]
      else decimalDigits (n div 10) @ [''0123456789'' ! (n mod 10)])"

declare decimalDigits.simps [simp del]

definition integerToString :: "real \<Rightarrow> string" where
  "integerToString x = decimalDigits (nat \<lfloor>x\<rfloor>)"

text \<open>The circumstances of a request, after the error taxonomy of the specification: no
  credential, a missing parameter, a failed fetch, a fetched document without the named
  node, and a fetched document with it. The tool server does not check its parameters.\<close>

datatype situation = NoCredential | InvalidRequest | FetchFailed | NotFound | Found

definition request_situation ::
  "string option \<Rightarrow> axios_get \<Rightarrow> string option \<Rightarrow> string option \<Rightarrow> situation" where
  "request_situation FIGMA_TOKEN get fileKey componentName =
     (if \<not> truthyStr FIGMA_TOKEN then NoCredential
      else if \<not> truthyStr fileKey \<or> \<not> truthyStr componentName then InvalidRequest
      else (case get (files_url (orStr fileKey [])) (orStr FIGMA_TOKEN []) of
              Inl _ \<Rightarrow> FetchFailed
            | Inr document \<Rightarrow>
                (case findNodeByName document (orStr componentName []) of
                   None \<Rightarrow> NotFound
                 | Some _ \<Rightarrow> Found)))"

definition tool_situation ::
  "string option \<Rightarrow> axios_get \<Rightarrow> string \<Rightarrow> string \<Rightarrow> situation" where
  "tool_situation FIGMA_TOKEN get fileKey nodeName =
     (if \<not> truthyStr FIGMA_TOKEN then NoCredential
      else (case get (files_url fileKey) (orStr FIGMA_TOKEN []) of
              Inl _ \<Rightarrow> FetchFailed
            | Inr document \<Rightarrow>
                (case findNodeByName document nodeName of
                   None \<Rightarrow> NotFound
                 | Some _ \<Rightarrow> Found)))"

text \<open>The message of the error the tool server throws when the node is not found.\<close>

definition not_found_detail :: "string \<Rightarrow> string" where
  "not_found_detail nodeName =
     ''Component '' @ quote_mark @ nodeName @ quote_mark @ '' not found in Figma file''"

text \<open>What is assumed of the HTTP client: the message of an error it throws is never
  the text the tool server itself throws for a missing node.\<close>

definition client_never_says_not_found :: "axios_get \<Rightarrow> bool" where
  "client_never_says_not_found get =
     (\<forall>url token e nodeName. get url token = Inl e \<longrightarrow> message e \<noteq> not_found_detail nodeName)"

text \<open>Example clients: one that returns the example document, one that fails with a
  given message.\<close>

definition ex_get_document :: axios_get where
  "ex_get_document url token = Inr ex_doc"

definition ex_get_error :: "string \<Rightarrow> axios_get" where
  "ex_get_error msg url token = Inl \<lparr>message = msg, response_data_err = None\<rparr>"

definition ex_get_403 :: axios_get where
  "ex_get_403 = ex_get_error ''Request failed with status code 403''"

definition ex_token :: "string option" where
  "ex_token = Some ''figd_token''"

section \<open>Facts about the primitives and the extracted fields\<close>

lemma style_fields:
  "style_text (extractComponentStyle nd) = orStr (extractText nd) ''Text''"
  "style_width (extractComponentStyle nd) = orNum (Option.bind (absoluteBoundingBox (attrs nd)) width) 200"
  "style_height (extractComponentStyle nd) = orNum (Option.bind (absoluteBoundingBox (attrs nd)) height) 50"
  "style_borderRadius (extractComponentStyle nd) = orNum (cornerRadius (attrs nd)) 0"
  "style_backgroundColor (extractComponentStyle nd) = fst (extractBackground (attrs nd))"
  "style_fillDebug (extractComponentStyle nd) = snd (snd (extractBackground (attrs nd)))"
  "style_color (extractComponentStyle nd) = extractTextColor nd"
  "style_fontSize (extractComponentStyle nd) = fst (extractFont nd)"
  "style_fontWeight (extractComponentStyle nd) = fst (snd (extractFont nd))"
  "style_textAlign (extractComponentStyle nd) = snd (snd (extractFont nd))"
  "style_type (extractComponentStyle nd) =
     detectType (attrs nd) (orNum (cornerRadius (attrs nd)) 0)
       (fst (snd (extractBackground (attrs nd)))) (fst (snd (extractFont nd)))"
  by (simp_all add: extractComponentStyle_def Let_def split: prod.splits)

lemma first_characters_append:
  "first_characters (xs @ ys) =
     (case first_characters xs of Some s \<Rightarrow> Some s | None \<Rightarrow> first_characters ys)"
  by (induction xs) (auto split: option.splits)

lemma first_characters_nonempty: "first_characters xs = Some s \<Longrightarrow> s \<noteq> []"
  by (induction xs) (auto split: option.splits if_splits)

lemma extractText_is_first:
  "extractText t = first_characters (preorder t)"
  "extractText_loop cs = first_characters (preorder_list cs)"
  by (induction t and cs rule: extractText_extractText_loop.induct)
     (auto simp: first_characters_append truthyStr_def Let_def split: option.splits
        dest: first_characters_nonempty)

lemma orStr_first:
  "orStr (first_characters xs) d = (case first_characters xs of Some s \<Rightarrow> s | None \<Rightarrow> d)"
  by (auto simp: orStr_def split: option.splits dest: first_characters_nonempty)

lemma startsWith_prefix: "startsWith s t = prefix t s"
  by (induction s t rule: startsWith.induct) auto

lemma includes_str_sublist: "includes_str s t = sublist t s"
  by (induction s) (simp_all add: startsWith_prefix sublist_Cons_right)

lemma detectType_tiers:
  "detectType a cr hb fw =
     (if names_button (name a) then ''button''
      else if names_text (name a) then ''text''
      else if names_input (name a) then ''input''
      else if node_type a = ''TEXT'' then ''text''
      else if (node_type a = ''FRAME'' \<or> node_type a = ''COMPONENT'' \<or> node_type a = ''INSTANCE'')
              \<and> (hb \<or> (\<exists>s ss. strokes a = Some (s # ss))) \<and> (4 \<le> cr \<or> 600 \<le> fw)
        then ''button''
      else ''text'')"
proof -
  have border: "(case strokes a of Some ss \<Rightarrow> ss \<noteq> [] | None \<Rightarrow> False)
                  = (\<exists>s ss. strokes a = Some (s # ss))"
    by (auto split: option.splits simp: neq_Nil_conv)
  show ?thesis
    unfolding detectType_def Let_def includes_str_sublist border
      names_button_def names_text_def names_input_def
    by simp
qed

lemma rgbaToHex_not_transparent: "rgbaToHex c \<noteq> ''transparent''"
  by (simp add: rgbaToHex_def)

lemmas name_eval = names_button_def names_text_def names_input_def toLowerCase_def
  lowerChar_def sublist_Cons_right

lemma hexDigit_lower: "hexDigit d \<in> set ''0123456789abcdef''"
proof -
  have "d mod 16 < length ''0123456789abcdef''" by simp
  then show ?thesis unfolding hexDigit_def by (rule nth_mem)
qed

lemma hexDigits_byte:
  assumes "n < 256"
  shows "padStart 2 (CHR ''0'') (hexDigits n) = [hexDigit (n div 16), hexDigit (n mod 16)]"
proof (cases "n < 16")
  case True
  then show ?thesis
    by (simp add: hexDigits.simps [of n] padStart_def hexDigit_def)
next
  case False
  with assms have "n div 16 < 16" by simp
  with False show ?thesis
    by (simp add: hexDigits.simps [of n] hexDigits.simps [of "n div 16"] padStart_def)
qed

text \<open>The rounding of doubles: \<open>binade\<close> is the binary exponent, and a value in
  \<open>[0, 255]\<close> is rounded to a value in \<open>[0, 255]\<close> no further than \<open>2^-46\<close> away.\<close>

lemma bitLength_le: "n < 2 ^ k \<Longrightarrow> bitLength n \<le> k"
proof (induction n arbitrary: k rule: bitLength.induct)
  case (1 n)
  show ?case
  proof (cases "n = 0")
    case True
    then show ?thesis by (simp add: bitLength.simps)
  next
    case False
    with "1.prems" obtain j where k: "k = Suc j" by (cases k) auto
    with "1.prems" have "n div 2 < 2 ^ j" by auto
    with "1.IH" [OF False] have "bitLength (n div 2) \<le> j" by simp
    with False k show ?thesis by (simp add: bitLength.simps [of n])
  qed
qed

lemma bitLength_bounds: "0 < n \<Longrightarrow> 2 ^ (bitLength n - 1) \<le> n \<and> n < 2 ^ bitLength n"
proof (induction n rule: bitLength.induct)
  case (1 n)
  show ?case
  proof (cases "n div 2 = 0")
    case True
    with "1.prems" have "n = 1" by auto
    then show ?thesis by (simp add: bitLength.simps)
  next
    case False
    with "1.IH" "1.prems" have ih: "2 ^ (bitLength (n div 2) - 1) \<le> n div 2"
      "n div 2 < 2 ^ bitLength (n div 2)" by auto
    from False have pos: "0 < bitLength (n div 2)" by (simp add: bitLength.simps [of "n div 2"])
    have bl: "bitLength n = Suc (bitLength (n div 2))"
      using "1.prems" by (simp add: bitLength.simps [of n])
    from pos obtain j where j: "bitLength (n div 2) = Suc j" by (cases "bitLength (n div 2)") auto
    from ih j have "2 * 2 ^ j \<le> n" "n < 2 * 2 ^ Suc j" by auto
    then show ?thesis by (simp add: bl j)
  qed
qed

lemma roundHalfEven_near: "\<bar>of_int (roundHalfEven s) - s\<bar> \<le> 1 / 2"
  unfolding roundHalfEven_def Let_def by (auto simp: abs_le_iff)

lemma roundHalfEven_le: "s \<le> of_int N \<Longrightarrow> roundHalfEven s \<le> N"
proof -
  assume le: "s \<le> of_int N"
  then have f: "\<lfloor>s\<rfloor> \<le> N" by (simp add: floor_le_iff) 
  show ?thesis
  proof (cases "\<lfloor>s\<rfloor> = N")
    case True
    with le have "s = of_int N" by linarith
    then show ?thesis by (simp add: roundHalfEven_def)
  next
    case False
    with f have "\<lfloor>s\<rfloor> + 1 \<le> N" by simp
    then show ?thesis unfolding roundHalfEven_def Let_def by auto
  qed
qed

lemma roundHalfEven_nonneg: "0 \<le> s \<Longrightarrow> 0 \<le> roundHalfEven s"
  unfolding roundHalfEven_def Let_def by auto

lemma binade_bounds:
  assumes "0 < x"
  shows "pow2 (binade x) \<le> x \<and> x < pow2 (binade x + 1)"
proof (cases "1 \<le> x")
  case True
  define n where "n = nat \<lfloor>x\<rfloor>"
  from True have fl: "1 \<le> \<lfloor>x\<rfloor>" by simp
  then have rn: "real n = of_int \<lfloor>x\<rfloor>" by (simp add: n_def)
  have n: "0 < n" "real n \<le> x" "x < real n + 1"
  proof -
    show "0 < n" using fl by (simp add: n_def)
    show "real n \<le> x" by (simp add: rn)
    show "x < real n + 1" unfolding rn by linarith
  qed
  from bitLength_bounds [OF n(1)] have b: "2 ^ (bitLength n - 1) \<le> n" "n < 2 ^ bitLength n"
    by auto
  from n(1) have pos: "0 < bitLength n" by (simp add: bitLength.simps [of n])
  have "(2::real) ^ (bitLength n - 1) \<le> real n"
    using of_nat_mono [OF b(1), where ?'a = real] by simp
  with n(2) have lo: "(2::real) ^ (bitLength n - 1) \<le> x" by linarith
  from b(2) have s: "n + 1 \<le> 2 ^ bitLength n" by simp
  have "real n + 1 \<le> 2 ^ bitLength n"
    using of_nat_mono [OF s, where ?'a = real] by simp
  with n(3) have hi: "x < 2 ^ bitLength n" by linarith
  have e: "binade x = int (bitLength n) - 1"
    using True by (simp add: binade_def n_def)
  have "nat (int (bitLength n) - 1) = bitLength n - 1" by simp
  with pos lo hi show ?thesis
    by (simp add: e pow2_def)
next
  case False
  define c where "c = \<lceil>1 / x\<rceil>"
  define m where "m = nat (c - 1)"
  from False assms have y: "1 < 1 / x" by simp
  have c: "2 \<le> c" "real_of_int c - 1 < 1 / x" "1 / x \<le> real_of_int c"
    using y unfolding c_def by linarith+
  from c(1) have rm: "real m = of_int c - 1" by (simp add: m_def)
  have m: "0 < m" "real m < 1 / x" "1 / x \<le> real m + 1"
    using c by (simp_all add: rm) (simp add: m_def)
  from bitLength_bounds [OF m(1)] have b: "2 ^ (bitLength m - 1) \<le> m" "m < 2 ^ bitLength m"
    by auto
  from m(1) have pos: "0 < bitLength m" by (simp add: bitLength.simps [of m])
  have "(2::real) ^ (bitLength m - 1) \<le> real m"
    using of_nat_mono [OF b(1), where ?'a = real] by simp
  with m(2) have "(2::real) ^ (bitLength m - 1) < 1 / x" by linarith
  with assms have hi: "x < 1 / 2 ^ (bitLength m - 1)"
    by (simp add: field_simps)
  from b(2) have s: "m + 1 \<le> 2 ^ bitLength m" by simp
  have "real m + 1 \<le> 2 ^ bitLength m"
    using of_nat_mono [OF s, where ?'a = real] by simp
  with m(3) have "1 / x \<le> 2 ^ bitLength m" by linarith
  with assms have lo: "1 / 2 ^ bitLength m \<le> x"
    by (simp add: field_simps)
  have e: "binade x = - int (bitLength m)"
    using False by (simp add: binade_def m_def c_def)
  show ?thesis
  proof (cases "bitLength m = 1")
    case True
    with lo hi show ?thesis by (simp add: e pow2_def)
  next
    case False
    with pos have "\<not> 0 \<le> 1 - int (bitLength m)" "nat (int (bitLength m) - 1) = bitLength m - 1"
      by auto
    with pos lo hi show ?thesis by (simp add: e pow2_def)
  qed
qed

lemma binade_byte: "0 < x \<Longrightarrow> x \<le> 255 \<Longrightarrow> binade x \<le> 7"
proof (cases "1 \<le> x")
  case True
  assume "x \<le> 255"
  then have "\<lfloor>x\<rfloor> < 256" by (simp add: floor_less_iff)
  then have "nat \<lfloor>x\<rfloor> < 256" by linarith
  then have "nat \<lfloor>x\<rfloor> < 2 ^ 8" by simp
  from bitLength_le [OF this] True show ?thesis by (simp add: binade_def)
next
  case False
  then show ?thesis by (simp add: binade_def)
qed

lemma roundToDouble_byte:
  assumes "0 \<le> x" "x \<le> 255"
  shows "0 \<le> roundToDouble x" "roundToDouble x \<le> 255"
    "\<bar>roundToDouble x - x\<bar> \<le> 1 / 2 ^ 46"
proof -
  have "0 \<le> roundToDouble x \<and> roundToDouble x \<le> 255 \<and> \<bar>roundToDouble x - x\<bar> \<le> 1 / 2 ^ 46"
  proof (cases "x = 0")
    case True
    then show ?thesis by (simp add: roundToDouble_def)
  next
    case False
    with assms have pos: "0 < x" by simp
    define q where "q = max (binade x - 52) (- 1074)"
    define k where "k = nat (- q)"
    from binade_byte [OF pos assms(2)] have q: "q \<le> - 45" by (simp add: q_def)
    then have k: "45 \<le> k" "q = - int k" by (simp_all add: k_def)
    then have p: "pow2 q = 1 / 2 ^ k" by (simp add: pow2_def)
    define n where "n = roundHalfEven (x * 2 ^ k)"
    have r: "roundToDouble x = of_int n / 2 ^ k"
      using pos by (simp add: roundToDouble_def Let_def q_def [symmetric] p n_def)
    have n0: "0 \<le> n" unfolding n_def using pos by (intro roundHalfEven_nonneg) simp
    have "x * 2 ^ k \<le> of_int (255 * 2 ^ k)" using assms(2) by simp
    then have n1: "n \<le> 255 * 2 ^ k" unfolding n_def by (rule roundHalfEven_le)
    then have "real_of_int n \<le> real_of_int (255 * 2 ^ k)"
      by (simp only: of_int_le_iff)
    then have "real_of_int n \<le> 255 * 2 ^ k" by simp
    then have hi: "of_int n / 2 ^ k \<le> (255::real)" by (simp add: field_simps)
    have "\<bar>of_int n - x * 2 ^ k\<bar> \<le> 1 / 2" unfolding n_def by (rule roundHalfEven_near)
    then have "\<bar>of_int n / 2 ^ k - x\<bar> * 2 ^ k \<le> 1 / 2"
      by (simp add: abs_le_iff field_simps)
    then have "\<bar>of_int n / 2 ^ k - x\<bar> \<le> 1 / (2 * 2 ^ k)"
      by (simp add: field_simps)
    moreover have "(1::real) / (2 * 2 ^ k) \<le> 1 / 2 ^ 46"
    proof -
      have "(2::real) ^ 46 \<le> 2 ^ Suc k" using k(1) by (intro power_increasing) auto
      then show ?thesis by (simp add: field_simps)
    qed
    ultimately have near: "\<bar>of_int n / 2 ^ k - x\<bar> \<le> 1 / 2 ^ 46" by linarith
    from n0 hi near show ?thesis by (simp add: r)
  qed
  then show "0 \<le> roundToDouble x" "roundToDouble x \<le> 255"
    "\<bar>roundToDouble x - x\<bar> \<le> 1 / 2 ^ 46" by auto
qed

lemma double_mul_unit:
  assumes "0 \<le> x" "x \<le> 1"
  shows "0 \<le> double_mul x 255" "double_mul x 255 \<le> 255"
    "\<bar>double_mul x 255 - x * 255\<bar> \<le> 1 / 2 ^ 46"
proof -
  from assms have "0 \<le> x * 255" "x * 255 \<le> 255" by simp_all
  from roundToDouble_byte [OF this]
  show "0 \<le> double_mul x 255" "double_mul x 255 \<le> 255"
    "\<bar>double_mul x 255 - x * 255\<bar> \<le> 1 / 2 ^ 46"
    by (simp_all add: double_mul_def)
qed

lemma Math_round_byte:
  assumes "0 \<le> p" "p \<le> 255"
  shows "0 \<le> Math_round p" "Math_round p \<le> 255"
proof -
  from assms have "0 \<le> p + 1 / 2" by simp
  then show "0 \<le> Math_round p" unfolding Math_round_def by simp
  from assms have "p + 1 / 2 < 256" by simp
  then have "\<lfloor>p + 1 / 2\<rfloor> < 256" by (simp add: floor_less_iff)
  then show "Math_round p \<le> 255" unfolding Math_round_def by simp
qed

lemma Math_round_is_round: "Math_round x = round x"
  by (simp add: Math_round_def round_def)

lemma hex2_unit:
  assumes "0 \<le> x" "x \<le> 1"
  shows "hex2 x = [hexDigit (nat (Math_round (double_mul x 255)) div 16),
                   hexDigit (nat (Math_round (double_mul x 255)) mod 16)]"
proof -
  note d = double_mul_unit [OF assms]
  from Math_round_byte [OF d(1,2)] have "nat (Math_round (double_mul x 255)) < 256"
    and "\<not> Math_round (double_mul x 255) < 0" by auto
  moreover from d(1,2) have "\<not> 2 ^ 1024 \<le> \<bar>double_mul x 255\<bar>" by simp
  ultimately show ?thesis
    by (simp add: hex2_def Let_def toString16_def hexDigits_byte)
qed

lemma hex2_spec:
  assumes "0 \<le> x" "x \<le> 1"
  shows "hex2 x = spec_two_digits (spec_channel x)"
proof -
  note d = double_mul_unit [OF assms]
  from Math_round_byte [OF d(1,2)]
  have "max 0 (min 255 (round (double_mul x 255))) = Math_round (double_mul x 255)"
    by (simp add: Math_round_is_round)
  then show ?thesis
    by (simp add: hex2_unit [OF assms] spec_two_digits_def spec_channel_def)
qed

lemma spec_two_digits_lower: "set (spec_two_digits n) \<subseteq> set ''0123456789abcdef''"
proof -
  define S where "S = set ''0123456789abcdef''"
  have "hexDigit d \<in> S" for d unfolding S_def by (rule hexDigit_lower)
  then have "set (spec_two_digits n) \<subseteq> S" by (simp add: spec_two_digits_def)
  then show ?thesis unfolding S_def .
qed

lemma rgbaToHex_unit:
  assumes "0 \<le> col_r c" "col_r c \<le> 1" "0 \<le> col_g c" "col_g c \<le> 1" "0 \<le> col_b c" "col_b c \<le> 1"
  shows "rgbaToHex c = CHR ''#'' # spec_two_digits (spec_channel (col_r c))
                      @ spec_two_digits (spec_channel (col_g c))
                      @ spec_two_digits (spec_channel (col_b c))"
  by (simp add: rgbaToHex_def hex2_spec assms)

lemma spec_channel_examples:
  "spec_channel 0 = 0" "spec_channel 1 = 255" "spec_channel (1 / 2) = 128"
  by code_simp+

lemma spec_two_digits_examples:
  "spec_two_digits 0 = ''00''" "spec_two_digits 255 = ''ff''" "spec_two_digits 128 = ''80''"
  "spec_two_digits 77 = ''4d''"
  by (simp_all add: spec_two_digits_def hexDigit_def)

lemma rgbaToHex_examples:
  "rgbaToHex \<lparr>col_r = 1, col_g = 0, col_b = 0\<rparr> = ''#ff0000''"
  "rgbaToHex \<lparr>col_r = 0, col_g = 0, col_b = 0\<rparr> = ''#000000''"
  "rgbaToHex \<lparr>col_r = 0.5, col_g = 0.5, col_b = 0.5\<rparr> = ''#808080''"
  "rgbaToHex \<lparr>col_r = 1, col_g = 1, col_b = 1\<rparr> = ''#ffffff''"
  by (simp_all add: rgbaToHex_unit spec_channel_examples spec_two_digits_examples)

section \<open>Tree search: first match in document order\<close>

lemma find_append_first:
  "List.find P (xs @ ys) = (case List.find P xs of None \<Rightarrow> List.find P ys | Some x \<Rightarrow> Some x)"
  by (induction xs) auto

lemma findNodeByName_is_find:
  "findNodeByName t n = List.find (\<lambda>x. name (attrs x) = n) (preorder t)"
  "findNodeByName_loop cs n = List.find (\<lambda>x. name (attrs x) = n) (preorder_list cs)"
  by (induction t n and cs n rule: findNodeByName_findNodeByName_loop.induct)
     (auto simp: find_append_first split: option.splits)

text \<open>
  Claim C1. For every tree and every name, \<open>findNodeByName\<close> returns the first node in
  document order (depth first, pre-order) whose name equals the given name: the root when
  the root's name matches; otherwise the first match among the children's subtrees, taken
  left to right; nothing when the root does not match and has no \<open>children\<close> attribute;
  with duplicate names the occurrence that comes first in pre-order; and \<open>None\<close> (the
  code's \<open>null\<close>), not an error, when no node of the tree has the name.
\<close>

theorem findNodeByName_preorder_first:
  "findNodeByName t n = List.find (\<lambda>x. name (attrs x) = n) (preorder t)
   \<and> (name (attrs t) = n \<longrightarrow> findNodeByName t n = Some t)
   \<and> (name (attrs t) \<noteq> n \<and> children t = None \<longrightarrow> findNodeByName t n = None)
   \<and> (\<forall>cs. name (attrs t) \<noteq> n \<and> children t = Some cs \<longrightarrow>
          findNodeByName t n = List.find (\<lambda>x. name (attrs x) = n) (preorder_list cs))
   \<and> (\<forall>before x after.
          preorder t = before @ x # after \<and> name (attrs x) = n
            \<and> (\<forall>y \<in> set before. name (attrs y) \<noteq> n)
          \<longrightarrow> findNodeByName t n = Some x)
   \<and> ((\<forall>x \<in> set (preorder t). name (attrs x) \<noteq> n) \<longrightarrow> findNodeByName t n = None)"
proof -
  let ?P = "\<lambda>x. name (attrs x) = n"
  have eq: "findNodeByName t n = List.find ?P (preorder t)"
    by (rule findNodeByName_is_find(1))
  have root: "name (attrs t) = n \<longrightarrow> findNodeByName t n = Some t"
    by (cases t) simp
  have absent: "name (attrs t) \<noteq> n \<and> children t = None \<longrightarrow> findNodeByName t n = None"
    by (cases t) simp
  have desc: "\<forall>cs. name (attrs t) \<noteq> n \<and> children t = Some cs \<longrightarrow>
          findNodeByName t n = List.find ?P (preorder_list cs)"
    by (cases t) (simp add: findNodeByName_is_find(2))
  have first: "\<forall>before x after.
          preorder t = before @ x # after \<and> name (attrs x) = n
            \<and> (\<forall>y \<in> set before. name (attrs y) \<noteq> n)
          \<longrightarrow> findNodeByName t n = Some x"
  proof (intro allI impI)
    fix before x after
    assume h: "preorder t = before @ x # after \<and> name (attrs x) = n
            \<and> (\<forall>y \<in> set before. name (attrs y) \<noteq> n)"
    then have "List.find ?P before = None"
      by (simp add: find_None_iff)
    with h show "findNodeByName t n = Some x"
      by (simp add: eq find_append_first)
  qed
  have none: "(\<forall>x \<in> set (preorder t). name (attrs x) \<noteq> n) \<longrightarrow> findNodeByName t n = None"
    by (simp add: eq find_None_iff)
  from eq root absent desc first none show ?thesis by blast
qed

theorem findNodeByName_preorder_first_witness:
  "preorder ex_doc =
     [ex_doc, Node (bare ''1:1'' ''Group'' ''FRAME'') (Some [Node (bare ''1:2'' ''Btn'' ''TEXT'') None])]
       @ Node (bare ''1:2'' ''Btn'' ''TEXT'') None # [Node (bare ''1:3'' ''Btn'' ''FRAME'') (Some [])]
   \<and> findNodeByName ex_doc ''Btn'' = Some (Node (bare ''1:2'' ''Btn'' ''TEXT'') None)
   \<and> ''Card'' \<notin> set (map (\<lambda>x. name (attrs x)) (preorder ex_doc))
   \<and> findNodeByName ex_doc ''Card'' = None
   \<and> findNodeByName ex_doc ''Document'' = Some ex_doc"
  using findNodeByName_preorder_first [of ex_doc "''Btn''"]
        findNodeByName_preorder_first [of ex_doc "''Card''"]
        findNodeByName_preorder_first [of ex_doc "''Document''"]
  by (simp add: ex_doc_def bare_def)

section \<open>Type detection: the name tier\<close>

text \<open>
  Claim C2. The name tier matches words against the lowercased name of the node, as
  contiguous runs, in this order, the first hit deciding the type: \<open>button\<close> or \<open>btn\<close>
  gives \<open>button\<close>; else \<open>text\<close>, \<open>label\<close>, \<open>title\<close> or \<open>heading\<close> gives \<open>text\<close>; else
  \<open>input\<close>, \<open>textbox\<close> or \<open>field\<close> gives \<open>input\<close>. A hit decides the type whatever the
  other attributes of the node are: two nodes with the same matching name get the same
  type. In particular a node named \<open>Submit Button\<close> is a \<open>button\<close>.
\<close>

theorem name_tier_first_hit_wins:
  "(names_button (name (attrs nd)) \<longrightarrow> style_type (extractComponentStyle nd) = ''button'')
   \<and> (\<not> names_button (name (attrs nd)) \<and> names_text (name (attrs nd)) \<longrightarrow>
         style_type (extractComponentStyle nd) = ''text'')
   \<and> (\<not> names_button (name (attrs nd)) \<and> \<not> names_text (name (attrs nd))
         \<and> names_input (name (attrs nd)) \<longrightarrow>
         style_type (extractComponentStyle nd) = ''input'')
   \<and> (\<forall>other. name (attrs other) = name (attrs nd)
         \<and> (names_button (name (attrs nd)) \<or> names_text (name (attrs nd))
              \<or> names_input (name (attrs nd))) \<longrightarrow>
         style_type (extractComponentStyle other) = style_type (extractComponentStyle nd))
   \<and> (name (attrs nd) = ''Submit Button'' \<longrightarrow> style_type (extractComponentStyle nd) = ''button'')"
proof -
  have submit: "names_button ''Submit Button''"
    by (simp add: names_button_def toLowerCase_def lowerChar_def sublist_Cons_right)
  show ?thesis
    using submit by (auto simp: style_fields(11) detectType_tiers)
qed

theorem name_tier_first_hit_wins_witness:
  "names_button ''Submit Button''
   \<and> style_type (extractComponentStyle ex_submit) = ''button''
   \<and> \<not> names_button ''Page Title'' \<and> names_text ''Page Title''
   \<and> style_type (extractComponentStyle ex_page_title) = ''text''
   \<and> \<not> names_button ''Email Field'' \<and> \<not> names_text ''Email Field'' \<and> names_input ''Email Field''
   \<and> style_type (extractComponentStyle ex_field) = ''input''
   \<and> names_text ''Textbox''
   \<and> style_type (extractComponentStyle ex_textbox) = ''text''"
proof -
  have n1: "names_button ''Submit Button''" by (simp add: name_eval)
  have n2: "\<not> names_button ''Page Title''" "names_text ''Page Title''"
    by (simp_all add: name_eval)
  have n3: "\<not> names_button ''Email Field''" "\<not> names_text ''Email Field''"
    "names_input ''Email Field''"
    by (simp_all add: name_eval)
  have n4: "\<not> names_button ''Textbox''" "names_text ''Textbox''"
    by (simp_all add: name_eval)
  have a1: "name (attrs ex_submit) = ''Submit Button''" by (simp add: ex_submit_def bare_def)
  have a2: "name (attrs ex_page_title) = ''Page Title''" by (simp add: ex_page_title_def bare_def)
  have a3: "name (attrs ex_field) = ''Email Field''" by (simp add: ex_field_def bare_def)
  have a4: "name (attrs ex_textbox) = ''Textbox''" by (simp add: ex_textbox_def bare_def)
  have t1: "style_type (extractComponentStyle ex_submit) = ''button''"
    using name_tier_first_hit_wins [of ex_submit, THEN conjunct1] n1 a1 by simp
  have t2: "style_type (extractComponentStyle ex_page_title) = ''text''"
    using name_tier_first_hit_wins [of ex_page_title, THEN conjunct2, THEN conjunct1] n2 a2
    by simp
  have t3: "style_type (extractComponentStyle ex_field) = ''input''"
    using name_tier_first_hit_wins [of ex_field, THEN conjunct2, THEN conjunct2, THEN conjunct1]
      n3 a3 by simp
  have t4: "style_type (extractComponentStyle ex_textbox) = ''text''"
    using name_tier_first_hit_wins [of ex_textbox, THEN conjunct2, THEN conjunct1] n4 a4
    by simp
  from n1 n2 n3 n4 t1 t2 t3 t4 show ?thesis by simp
qed

section \<open>Type detection: the visual tier\<close>

text \<open>
  Claim C3. When the lowercased name contains none of the nine words of the name tier,
  the type is \<open>text\<close> for a node of type \<open>TEXT\<close>; otherwise it is \<open>button\<close> exactly when
  the node is a \<open>FRAME\<close>, \<open>COMPONENT\<close> or \<open>INSTANCE\<close>, has a background or a non-empty
  \<open>strokes\<close>, and has a corner radius of at least 4 or a font weight of at least 600;
  and \<open>text\<close> in every other case, so never \<open>input\<close>. A \<open>FRAME\<close> named \<open>Card\<close> with a
  visible solid first fill and corner radius 8 is a \<open>button\<close>; one with no fills, no
  strokes and corner radius 0 is a \<open>text\<close>.
\<close>

theorem visual_tier_decides:
  "(\<not> names_button (name (attrs nd)) \<and> \<not> names_text (name (attrs nd))
      \<and> \<not> names_input (name (attrs nd)) \<longrightarrow>
      style_type (extractComponentStyle nd)
        = (if node_type (attrs nd) = ''TEXT'' then ''text''
           else if (node_type (attrs nd) = ''FRAME'' \<or> node_type (attrs nd) = ''COMPONENT''
                      \<or> node_type (attrs nd) = ''INSTANCE'')
                   \<and> (fst (snd (extractBackground (attrs nd)))
                        \<or> (\<exists>s ss. strokes (attrs nd) = Some (s # ss)))
                   \<and> (4 \<le> style_borderRadius (extractComponentStyle nd)
                        \<or> 600 \<le> style_fontWeight (extractComponentStyle nd))
             then ''button''
           else ''text'')
      \<and> (style_type (extractComponentStyle nd) = ''button'' \<longleftrightarrow>
            (node_type (attrs nd) = ''FRAME'' \<or> node_type (attrs nd) = ''COMPONENT''
               \<or> node_type (attrs nd) = ''INSTANCE'')
            \<and> (fst (snd (extractBackground (attrs nd)))
                 \<or> (\<exists>s ss. strokes (attrs nd) = Some (s # ss)))
            \<and> (4 \<le> style_borderRadius (extractComponentStyle nd)
                 \<or> 600 \<le> style_fontWeight (extractComponentStyle nd)))
      \<and> (style_type (extractComponentStyle nd) \<noteq> ''button'' \<longleftrightarrow>
            style_type (extractComponentStyle nd) = ''text'')
      \<and> style_type (extractComponentStyle nd) \<noteq> ''input'')
   \<and> style_borderRadius (extractComponentStyle nd)
        = (case cornerRadius (attrs nd) of None \<Rightarrow> 0 | Some r \<Rightarrow> r)
   \<and> \<not> names_button ''Card'' \<and> \<not> names_text ''Card'' \<and> \<not> names_input ''Card''
   \<and> (\<forall>fill rest c.
         name (attrs nd) = ''Card'' \<and> node_type (attrs nd) = ''FRAME''
         \<and> cornerRadius (attrs nd) = Some 8 \<and> fills (attrs nd) = Some (fill # rest)
         \<and> (visible fill = None \<or> visible fill = Some True) \<and> paint_type fill = ''SOLID''
         \<and> color fill = Some c \<and> opacity fill = None \<longrightarrow>
         style_type (extractComponentStyle nd) = ''button'')
   \<and> (name (attrs nd) = ''Card'' \<and> node_type (attrs nd) = ''FRAME''
         \<and> (cornerRadius (attrs nd) = Some 0 \<or> cornerRadius (attrs nd) = None)
         \<and> (fills (attrs nd) = Some [] \<or> fills (attrs nd) = None)
         \<and> (strokes (attrs nd) = Some [] \<or> strokes (attrs nd) = None) \<longrightarrow>
         style_type (extractComponentStyle nd) = ''text'')"
proof -
  let ?frame = "node_type (attrs nd) = ''FRAME'' \<or> node_type (attrs nd) = ''COMPONENT''
                  \<or> node_type (attrs nd) = ''INSTANCE''"
  have card: "\<not> names_button ''Card''" "\<not> names_text ''Card''" "\<not> names_input ''Card''"
    by (simp_all add: names_button_def names_text_def names_input_def toLowerCase_def
          lowerChar_def sublist_Cons_right)
  have radius: "style_borderRadius (extractComponentStyle nd)
        = (case cornerRadius (attrs nd) of None \<Rightarrow> 0 | Some r \<Rightarrow> r)"
    by (simp add: style_fields(4) orNum_def split: option.splits)
  have ty: "style_type (extractComponentStyle nd) =
     detectType (attrs nd) (style_borderRadius (extractComponentStyle nd))
       (fst (snd (extractBackground (attrs nd)))) (style_fontWeight (extractComponentStyle nd))"
    by (simp add: style_fields)
  have tier: "style_type (extractComponentStyle nd)
        = (if node_type (attrs nd) = ''TEXT'' then ''text''
           else if ?frame
                   \<and> (fst (snd (extractBackground (attrs nd)))
                        \<or> (\<exists>s ss. strokes (attrs nd) = Some (s # ss)))
                   \<and> (4 \<le> style_borderRadius (extractComponentStyle nd)
                        \<or> 600 \<le> style_fontWeight (extractComponentStyle nd))
             then ''button''
           else ''text'')"
    if "\<not> names_button (name (attrs nd))" "\<not> names_text (name (attrs nd))"
       "\<not> names_input (name (attrs nd))"
    using that by (simp add: ty detectType_tiers)
  have filled: "style_type (extractComponentStyle nd) = ''button''"
    if "name (attrs nd) = ''Card''" "node_type (attrs nd) = ''FRAME''"
       "cornerRadius (attrs nd) = Some 8" "fills (attrs nd) = Some (fill # rest)"
       "visible fill = None \<or> visible fill = Some True" "paint_type fill = ''SOLID''"
       "color fill = Some c" "opacity fill = None" for fill rest c
  proof -
    have "fst (snd (extractBackground (attrs nd)))"
      using that by (auto simp: extractBackground_def Let_def rgbaToHex_not_transparent)
    moreover have "4 \<le> style_borderRadius (extractComponentStyle nd)"
      using that by (simp add: radius)
    ultimately show ?thesis
      using tier card that by simp
  qed
  have plain: "style_type (extractComponentStyle nd) = ''text''"
    if "name (attrs nd) = ''Card''" "node_type (attrs nd) = ''FRAME''"
       "cornerRadius (attrs nd) = Some 0 \<or> cornerRadius (attrs nd) = None"
       "fills (attrs nd) = Some [] \<or> fills (attrs nd) = None"
       "strokes (attrs nd) = Some [] \<or> strokes (attrs nd) = None"
  proof -
    have "\<not> fst (snd (extractBackground (attrs nd)))"
      using that by (auto simp: extractBackground_def)
    moreover have "\<not> (\<exists>s ss. strokes (attrs nd) = Some (s # ss))"
      using that by auto
    ultimately show ?thesis
      using tier card that by simp
  qed
  have A: "\<not> names_button (name (attrs nd)) \<and> \<not> names_text (name (attrs nd))
      \<and> \<not> names_input (name (attrs nd)) \<longrightarrow>
      style_type (extractComponentStyle nd)
        = (if node_type (attrs nd) = ''TEXT'' then ''text''
           else if (node_type (attrs nd) = ''FRAME'' \<or> node_type (attrs nd) = ''COMPONENT''
                      \<or> node_type (attrs nd) = ''INSTANCE'')
                   \<and> (fst (snd (extractBackground (attrs nd)))
                        \<or> (\<exists>s ss. strokes (attrs nd) = Some (s # ss)))
                   \<and> (4 \<le> style_borderRadius (extractComponentStyle nd)
                        \<or> 600 \<le> style_fontWeight (extractComponentStyle nd))
             then ''button''
           else ''text'')
      \<and> (style_type (extractComponentStyle nd) = ''button'' \<longleftrightarrow>
            (node_type (attrs nd) = ''FRAME'' \<or> node_type (attrs nd) = ''COMPONENT''
               \<or> node_type (attrs nd) = ''INSTANCE'')
            \<and> (fst (snd (extractBackground (attrs nd)))
                 \<or> (\<exists>s ss. strokes (attrs nd) = Some (s # ss)))
            \<and> (4 \<le> style_borderRadius (extractComponentStyle nd)
                 \<or> 600 \<le> style_fontWeight (extractComponentStyle nd)))
      \<and> (style_type (extractComponentStyle nd) \<noteq> ''button'' \<longleftrightarrow>
            style_type (extractComponentStyle nd) = ''text'')
      \<and> style_type (extractComponentStyle nd) \<noteq> ''input''"
  proof
    assume h: "\<not> names_button (name (attrs nd)) \<and> \<not> names_text (name (attrs nd))
      \<and> \<not> names_input (name (attrs nd))"
    then have t: "style_type (extractComponentStyle nd)
        = (if node_type (attrs nd) = ''TEXT'' then ''text''
           else if ?frame
                   \<and> (fst (snd (extractBackground (attrs nd)))
                        \<or> (\<exists>s ss. strokes (attrs nd) = Some (s # ss)))
                   \<and> (4 \<le> style_borderRadius (extractComponentStyle nd)
                        \<or> 600 \<le> style_fontWeight (extractComponentStyle nd))
             then ''button''
           else ''text'')"
      using tier by blast
    show "style_type (extractComponentStyle nd)
        = (if node_type (attrs nd) = ''TEXT'' then ''text''
           else if (node_type (attrs nd) = ''FRAME'' \<or> node_type (attrs nd) = ''COMPONENT''
                      \<or> node_type (attrs nd) = ''INSTANCE'')
                   \<and> (fst (snd (extractBackground (attrs nd)))
                        \<or> (\<exists>s ss. strokes (attrs nd) = Some (s # ss)))
                   \<and> (4 \<le> style_borderRadius (extractComponentStyle nd)
                        \<or> 600 \<le> style_fontWeight (extractComponentStyle nd))
             then ''button''
           else ''text'')
      \<and> (style_type (extractComponentStyle nd) = ''button'' \<longleftrightarrow>
            (node_type (attrs nd) = ''FRAME'' \<or> node_type (attrs nd) = ''COMPONENT''
               \<or> node_type (attrs nd) = ''INSTANCE'')
            \<and> (fst (snd (extractBackground (attrs nd)))
                 \<or> (\<exists>s ss. strokes (attrs nd) = Some (s # ss)))
            \<and> (4 \<le> style_borderRadius (extractComponentStyle nd)
                 \<or> 600 \<le> style_fontWeight (extractComponentStyle nd)))
      \<and> (style_type (extractComponentStyle nd) \<noteq> ''button'' \<longleftrightarrow>
            style_type (extractComponentStyle nd) = ''text'')
      \<and> style_type (extractComponentStyle nd) \<noteq> ''input''"
      by (subst t, subst t, subst t, subst t, subst t) (simp split: if_splits)
  qed
  have D: "\<forall>fill rest c.
         name (attrs nd) = ''Card'' \<and> node_type (attrs nd) = ''FRAME''
         \<and> cornerRadius (attrs nd) = Some 8 \<and> fills (attrs nd) = Some (fill # rest)
         \<and> (visible fill = None \<or> visible fill = Some True) \<and> paint_type fill = ''SOLID''
         \<and> color fill = Some c \<and> opacity fill = None \<longrightarrow>
         style_type (extractComponentStyle nd) = ''button''"
    using filled by blast
  have E: "name (attrs nd) = ''Card'' \<and> node_type (attrs nd) = ''FRAME''
         \<and> (cornerRadius (attrs nd) = Some 0 \<or> cornerRadius (attrs nd) = None)
         \<and> (fills (attrs nd) = Some [] \<or> fills (attrs nd) = None)
         \<and> (strokes (attrs nd) = Some [] \<or> strokes (attrs nd) = None) \<longrightarrow>
         style_type (extractComponentStyle nd) = ''text''"
    using plain by blast
  show ?thesis
    by (intro conjI A radius card D E)
qed

theorem visual_tier_decides_witness:
  "\<not> names_button ''Card'' \<and> \<not> names_text ''Card'' \<and> \<not> names_input ''Card''
   \<and> name (attrs ex_card_filled) = ''Card'' \<and> node_type (attrs ex_card_filled) = ''FRAME''
   \<and> cornerRadius (attrs ex_card_filled) = Some 8
   \<and> fills (attrs ex_card_filled) = Some [white_fill]
   \<and> style_type (extractComponentStyle ex_card_filled) = ''button''
   \<and> name (attrs ex_card_plain) = ''Card'' \<and> node_type (attrs ex_card_plain) = ''FRAME''
   \<and> cornerRadius (attrs ex_card_plain) = Some 0
   \<and> fills (attrs ex_card_plain) = Some [] \<and> strokes (attrs ex_card_plain) = Some []
   \<and> style_type (extractComponentStyle ex_card_plain) = ''text''"
proof -
  note tail = conjunct2 [THEN conjunct2, THEN conjunct2, THEN conjunct2, THEN conjunct2]
  have card: "\<not> names_button ''Card''" "\<not> names_text ''Card''" "\<not> names_input ''Card''"
    by (simp_all add: name_eval)
  have f: "name (attrs ex_card_filled) = ''Card''" "node_type (attrs ex_card_filled) = ''FRAME''"
    "cornerRadius (attrs ex_card_filled) = Some 8"
    "fills (attrs ex_card_filled) = Some [white_fill]"
    by (simp_all add: ex_card_filled_def bare_def)
  have w: "visible white_fill = Some True" "paint_type white_fill = ''SOLID''"
    "color white_fill = Some \<lparr>col_r = 1, col_g = 1, col_b = 1\<rparr>" "opacity white_fill = None"
    by (simp_all add: white_fill_def)
  have p: "name (attrs ex_card_plain) = ''Card''" "node_type (attrs ex_card_plain) = ''FRAME''"
    "cornerRadius (attrs ex_card_plain) = Some 0"
    "fills (attrs ex_card_plain) = Some []" "strokes (attrs ex_card_plain) = Some []"
    by (simp_all add: ex_card_plain_def bare_def)
  have t1: "style_type (extractComponentStyle ex_card_filled) = ''button''"
    using visual_tier_decides [of ex_card_filled, THEN tail, THEN conjunct1, rule_format,
        of white_fill "[]" "\<lparr>col_r = 1, col_g = 1, col_b = 1\<rparr>"] f w
    by simp
  have t2: "style_type (extractComponentStyle ex_card_plain) = ''text''"
    using visual_tier_decides [of ex_card_plain, THEN tail, THEN conjunct2] p
    by simp
  from card f p t1 t2 show ?thesis by simp
qed

section \<open>Background colour\<close>

text \<open>
  Claim C4. The background is read from the first fill only. Without a first fill
  (\<open>fills\<close> absent or empty) the background colour is \<open>transparent\<close> and \<open>hasBackground\<close>
  is false. With a first fill that is visible (flag true or absent), of type \<open>SOLID\<close> and
  has a colour, the background colour is \<open>rgbaToHex\<close> of that colour and \<open>hasBackground\<close>
  holds exactly when the opacity (1 when absent) is positive and the hex string is not
  \<open>transparent\<close>; when one of the three checks fails, in particular for \<open>visible = false\<close>,
  the background colour is \<open>transparent\<close> and \<open>hasBackground\<close> is false.
\<close>

theorem background_from_first_fill:
  "(fills a = None \<or> fills a = Some [] \<longrightarrow>
      fst (extractBackground a) = ''transparent'' \<and> \<not> fst (snd (extractBackground a)))
   \<and> (\<forall>fill rest. fills a = Some (fill # rest) \<longrightarrow>
         extractBackground a = extractBackground (a\<lparr>fills := Some [fill]\<rparr>)
         \<and> ((visible fill = None \<or> visible fill = Some True) \<and> paint_type fill = ''SOLID''
              \<and> color fill \<noteq> None \<longrightarrow>
              (\<exists>c. color fill = Some c \<and> fst (extractBackground a) = rgbaToHex c
                 \<and> (fst (snd (extractBackground a)) \<longleftrightarrow>
                      (case opacity fill of None \<Rightarrow> 1 | Some v \<Rightarrow> v) > 0
                      \<and> rgbaToHex c \<noteq> ''transparent'')))
         \<and> (\<not> ((visible fill = None \<or> visible fill = Some True) \<and> paint_type fill = ''SOLID''
                 \<and> color fill \<noteq> None) \<longrightarrow>
              fst (extractBackground a) = ''transparent'' \<and> \<not> fst (snd (extractBackground a)))
         \<and> (visible fill = Some False \<longrightarrow>
              fst (extractBackground a) = ''transparent'' \<and> \<not> fst (snd (extractBackground a))))
   \<and> (\<forall>nd. attrs nd = a \<longrightarrow>
         style_backgroundColor (extractComponentStyle nd) = fst (extractBackground a))"
proof -
  have none: "fills a = None \<or> fills a = Some [] \<longrightarrow>
      fst (extractBackground a) = ''transparent'' \<and> \<not> fst (snd (extractBackground a))"
    by (auto simp: extractBackground_def)
  have first: "extractBackground a = extractBackground (a\<lparr>fills := Some [fill]\<rparr>)"
    if "fills a = Some (fill # rest)" for fill rest
    using that by (simp add: extractBackground_def)
  have pass: "\<exists>c. color fill = Some c \<and> fst (extractBackground a) = rgbaToHex c
                 \<and> (fst (snd (extractBackground a)) \<longleftrightarrow>
                      (case opacity fill of None \<Rightarrow> 1 | Some v \<Rightarrow> v) > 0
                      \<and> rgbaToHex c \<noteq> ''transparent'')"
    if "fills a = Some (fill # rest)"
       "(visible fill = None \<or> visible fill = Some True) \<and> paint_type fill = ''SOLID''
              \<and> color fill \<noteq> None" for fill rest
    using that by (auto simp: extractBackground_def Let_def)
  have fail: "fst (extractBackground a) = ''transparent'' \<and> \<not> fst (snd (extractBackground a))"
    if "fills a = Some (fill # rest)"
       "\<not> ((visible fill = None \<or> visible fill = Some True) \<and> paint_type fill = ''SOLID''
                 \<and> color fill \<noteq> None)" for fill rest
    using that by (auto simp: extractBackground_def Let_def split: option.splits)
  have hidden: "fst (extractBackground a) = ''transparent'' \<and> \<not> fst (snd (extractBackground a))"
    if "fills a = Some (fill # rest)" "visible fill = Some False" for fill rest
    using that fail [of fill rest] by simp
  have rec: "\<forall>nd. attrs nd = a \<longrightarrow>
         style_backgroundColor (extractComponentStyle nd) = fst (extractBackground a)"
    by (simp add: style_fields(5))
  have B: "\<forall>fill rest. fills a = Some (fill # rest) \<longrightarrow>
         extractBackground a = extractBackground (a\<lparr>fills := Some [fill]\<rparr>)
         \<and> ((visible fill = None \<or> visible fill = Some True) \<and> paint_type fill = ''SOLID''
              \<and> color fill \<noteq> None \<longrightarrow>
              (\<exists>c. color fill = Some c \<and> fst (extractBackground a) = rgbaToHex c
                 \<and> (fst (snd (extractBackground a)) \<longleftrightarrow>
                      (case opacity fill of None \<Rightarrow> 1 | Some v \<Rightarrow> v) > 0
                      \<and> rgbaToHex c \<noteq> ''transparent'')))
         \<and> (\<not> ((visible fill = None \<or> visible fill = Some True) \<and> paint_type fill = ''SOLID''
                 \<and> color fill \<noteq> None) \<longrightarrow>
              fst (extractBackground a) = ''transparent'' \<and> \<not> fst (snd (extractBackground a)))
         \<and> (visible fill = Some False \<longrightarrow>
              fst (extractBackground a) = ''transparent'' \<and> \<not> fst (snd (extractBackground a)))"
    using first pass fail hidden by (intro allI impI conjI) blast+
  show ?thesis
    by (intro conjI none B rec)
qed

theorem background_from_first_fill_witness:
  "fills ex_box_no_fills = None
   \<and> fst (extractBackground ex_box_no_fills) = ''transparent''
   \<and> \<not> fst (snd (extractBackground ex_box_no_fills))
   \<and> fills ex_box_hidden_first = Some [hidden_fill, white_fill]
   \<and> visible hidden_fill = Some False
   \<and> fst (extractBackground ex_box_hidden_first) = ''transparent''
   \<and> \<not> fst (snd (extractBackground ex_box_hidden_first))
   \<and> fills ex_box_white_first = Some [white_fill, hidden_fill]
   \<and> fst (extractBackground ex_box_white_first) = ''#ffffff''
   \<and> fst (snd (extractBackground ex_box_white_first))"
proof -
  have a1: "fills ex_box_no_fills = None"
    by (simp add: ex_box_no_fills_def bare_def)
  have a2: "fills ex_box_hidden_first = Some (hidden_fill # [white_fill])"
    by (simp add: ex_box_hidden_first_def bare_def)
  have a3: "fills ex_box_white_first = Some (white_fill # [hidden_fill])"
    by (simp add: ex_box_white_first_def bare_def)
  have h: "visible hidden_fill = Some False" by (simp add: hidden_fill_def)
  have w: "visible white_fill = Some True" "paint_type white_fill = ''SOLID''"
    "color white_fill = Some \<lparr>col_r = 1, col_g = 1, col_b = 1\<rparr>" "opacity white_fill = None"
    by (simp_all add: white_fill_def)
  note white = rgbaToHex_examples(4)
  have r1: "fst (extractBackground ex_box_no_fills) = ''transparent''
              \<and> \<not> fst (snd (extractBackground ex_box_no_fills))"
    using background_from_first_fill [of ex_box_no_fills, THEN conjunct1] a1 by simp
  have r2: "fst (extractBackground ex_box_hidden_first) = ''transparent''
              \<and> \<not> fst (snd (extractBackground ex_box_hidden_first))"
    using background_from_first_fill [of ex_box_hidden_first, THEN conjunct2, THEN conjunct1,
        rule_format, OF a2, THEN conjunct2, THEN conjunct2, THEN conjunct2] h
    by simp
  have "\<exists>c. color white_fill = Some c \<and> fst (extractBackground ex_box_white_first) = rgbaToHex c
          \<and> (fst (snd (extractBackground ex_box_white_first)) \<longleftrightarrow>
                (case opacity white_fill of None \<Rightarrow> 1 | Some v \<Rightarrow> v) > 0
                \<and> rgbaToHex c \<noteq> ''transparent'')"
    using background_from_first_fill [of ex_box_white_first, THEN conjunct2, THEN conjunct1,
        rule_format, OF a3, THEN conjunct2, THEN conjunct1] w
    by simp
  then have r3: "fst (extractBackground ex_box_white_first) = ''#ffffff''
              \<and> fst (snd (extractBackground ex_box_white_first))"
    using w white by simp
  from a1 a2 a3 h r1 r2 r3 show ?thesis by simp
qed

section \<open>Text content\<close>

text \<open>
  Claim C5, as stated, takes the node's own \<open>characters\<close> whenever the attribute is
  present. The code tests the attribute for truthiness, so a present, empty \<open>characters\<close>
  is passed over: a text node with \<open>characters = ""\<close> and no children yields \<open>Text\<close>, and
  a frame with \<open>characters = ""\<close> yields the text of a descendant.
\<close>

theorem extractText_present_but_empty_counterexample:
  "characters (attrs ex_empty_text) = Some []
   \<and> style_text (extractComponentStyle ex_empty_text) = ''Text''
   \<and> characters (attrs ex_empty_text_parent) = Some []
   \<and> style_text (extractComponentStyle ex_empty_text_parent) = ''Hello''"
  by (simp add: style_fields(1) ex_empty_text_def ex_empty_text_parent_def bare_def
        truthyStr_def orStr_def)

text \<open>
  Claim C5, amended. The extracted text is the node's own \<open>characters\<close> when it is present
  and not empty; otherwise the first non-empty \<open>characters\<close> among the descendants, in
  document order (depth first, pre-order); otherwise \<open>Text\<close>.
\<close>

theorem extractText_first_nonempty:
  "style_text (extractComponentStyle nd)
     = (case first_characters (preorder nd) of Some s \<Rightarrow> s | None \<Rightarrow> ''Text'')
   \<and> preorder nd = nd # tl (preorder nd)
   \<and> (\<forall>s. characters (attrs nd) = Some s \<and> s \<noteq> [] \<longrightarrow>
          style_text (extractComponentStyle nd) = s)
   \<and> (characters (attrs nd) = None \<or> characters (attrs nd) = Some [] \<longrightarrow>
          style_text (extractComponentStyle nd)
            = (case first_characters (tl (preorder nd)) of Some s \<Rightarrow> s | None \<Rightarrow> ''Text''))
   \<and> (first_characters (preorder nd) = None \<longrightarrow>
          style_text (extractComponentStyle nd) = ''Text'')"
proof -
  have whole: "style_text (extractComponentStyle nd)
     = (case first_characters (preorder nd) of Some s \<Rightarrow> s | None \<Rightarrow> ''Text'')"
    by (simp add: style_fields(1) extractText_is_first(1) orStr_first)
  have shape: "preorder nd = nd # tl (preorder nd)"
    by (cases nd) simp
  have own: "\<forall>s. characters (attrs nd) = Some s \<and> s \<noteq> [] \<longrightarrow>
          style_text (extractComponentStyle nd) = s"
  proof (intro allI impI)
    fix s assume "characters (attrs nd) = Some s \<and> s \<noteq> []"
    then have "first_characters (nd # tl (preorder nd)) = Some s" by simp
    with shape have "first_characters (preorder nd) = Some s" by simp
    then show "style_text (extractComponentStyle nd) = s" by (simp add: whole)
  qed
  have below: "characters (attrs nd) = None \<or> characters (attrs nd) = Some [] \<longrightarrow>
          style_text (extractComponentStyle nd)
            = (case first_characters (tl (preorder nd)) of Some s \<Rightarrow> s | None \<Rightarrow> ''Text'')"
  proof
    assume "characters (attrs nd) = None \<or> characters (attrs nd) = Some []"
    then have "first_characters (nd # tl (preorder nd)) = first_characters (tl (preorder nd))"
      by auto
    with shape have "first_characters (preorder nd) = first_characters (tl (preorder nd))"
      by simp
    then show "style_text (extractComponentStyle nd)
            = (case first_characters (tl (preorder nd)) of Some s \<Rightarrow> s | None \<Rightarrow> ''Text'')"
      by (simp add: whole)
  qed
  have dflt: "first_characters (preorder nd) = None \<longrightarrow>
          style_text (extractComponentStyle nd) = ''Text''"
    by (simp add: whole)
  from whole shape own below dflt show ?thesis by blast
qed

theorem extractText_first_nonempty_witness:
  "characters (attrs ex_component_with_text) = None
   \<and> style_text (extractComponentStyle ex_component_with_text) = ''Hello''
   \<and> characters (attrs ex_empty_text_parent) = Some []
   \<and> style_text (extractComponentStyle ex_empty_text_parent) = ''Hello''
   \<and> first_characters (preorder ex_doc) = None
   \<and> style_text (extractComponentStyle ex_doc) = ''Text''
   \<and> style_text (extractComponentStyle (Node ((bare ''3:4'' ''Greeting'' ''TEXT'')\<lparr>characters := Some ''Hi''\<rparr>) None)) = ''Hi''"
  using extractText_first_nonempty [of ex_component_with_text]
        extractText_first_nonempty [of ex_empty_text_parent]
        extractText_first_nonempty [of ex_doc]
        extractText_first_nonempty [of "Node ((bare ''3:4'' ''Greeting'' ''TEXT'')\<lparr>characters := Some ''Hi''\<rparr>) None"]
  by (simp add: ex_component_with_text_def ex_empty_text_parent_def ex_doc_def bare_def)

section \<open>Colour conversion on the unit cube\<close>

text \<open>
  Claim C6. For every colour whose three components lie in \<open>[0, 1]\<close>, \<open>rgbaToHex\<close>
  returns \<open>#\<close> followed by six lowercase hexadecimal digits, seven characters in all;
  each pair of digits is the zero-padded value of \<open>round(c * 255)\<close> clamped to
  \<open>[0, 255]\<close>, where the product is the product of doubles the code computes (it lies in
  \<open>[0, 255]\<close>, so the clamp changes nothing, and within \<open>2^-46\<close> of the exact product). In
  particular \<open>(1,0,0)\<close> gives \<open>#ff0000\<close>, \<open>(0,0,0)\<close> gives \<open>#000000\<close> and \<open>(0.5,0.5,0.5)\<close>
  gives \<open>#808080\<close>.
\<close>

theorem rgbaToHex_unit_cube:
  "(0 \<le> col_r c \<and> col_r c \<le> 1 \<and> 0 \<le> col_g c \<and> col_g c \<le> 1 \<and> 0 \<le> col_b c \<and> col_b c \<le> 1 \<longrightarrow>
      rgbaToHex c = CHR ''#'' # spec_two_digits (spec_channel (col_r c))
                      @ spec_two_digits (spec_channel (col_g c))
                      @ spec_two_digits (spec_channel (col_b c))
      \<and> spec_channel (col_r c) = nat (round (double_mul (col_r c) 255))
      \<and> spec_channel (col_g c) = nat (round (double_mul (col_g c) 255))
      \<and> spec_channel (col_b c) = nat (round (double_mul (col_b c) 255))
      \<and> \<bar>double_mul (col_r c) 255 - col_r c * 255\<bar> \<le> 1 / 2 ^ 46
      \<and> \<bar>double_mul (col_g c) 255 - col_g c * 255\<bar> \<le> 1 / 2 ^ 46
      \<and> \<bar>double_mul (col_b c) 255 - col_b c * 255\<bar> \<le> 1 / 2 ^ 46
      \<and> length (rgbaToHex c) = 7
      \<and> set (tl (rgbaToHex c)) \<subseteq> set ''0123456789abcdef'')
   \<and> rgbaToHex \<lparr>col_r = 1, col_g = 0, col_b = 0\<rparr> = ''#ff0000''
   \<and> rgbaToHex \<lparr>col_r = 0, col_g = 0, col_b = 0\<rparr> = ''#000000''
   \<and> rgbaToHex \<lparr>col_r = 0.5, col_g = 0.5, col_b = 0.5\<rparr> = ''#808080''"
proof -
  have general: "rgbaToHex c = CHR ''#'' # spec_two_digits (spec_channel (col_r c))
                      @ spec_two_digits (spec_channel (col_g c))
                      @ spec_two_digits (spec_channel (col_b c))
      \<and> spec_channel (col_r c) = nat (round (double_mul (col_r c) 255))
      \<and> spec_channel (col_g c) = nat (round (double_mul (col_g c) 255))
      \<and> spec_channel (col_b c) = nat (round (double_mul (col_b c) 255))
      \<and> \<bar>double_mul (col_r c) 255 - col_r c * 255\<bar> \<le> 1 / 2 ^ 46
      \<and> \<bar>double_mul (col_g c) 255 - col_g c * 255\<bar> \<le> 1 / 2 ^ 46
      \<and> \<bar>double_mul (col_b c) 255 - col_b c * 255\<bar> \<le> 1 / 2 ^ 46
      \<and> length (rgbaToHex c) = 7
      \<and> set (tl (rgbaToHex c)) \<subseteq> set ''0123456789abcdef''"
    if r: "0 \<le> col_r c" "col_r c \<le> 1" and g: "0 \<le> col_g c" "col_g c \<le> 1"
      and b: "0 \<le> col_b c" "col_b c \<le> 1"
  proof -
    have cl: "spec_channel x = nat (round (double_mul x 255))" if "0 \<le> x" "x \<le> 1" for x :: real
    proof -
      note d = double_mul_unit [OF that]
      from Math_round_byte [OF d(1,2)] show ?thesis
        by (simp add: Math_round_is_round spec_channel_def)
    qed
    have shape: "rgbaToHex c = CHR ''#'' # spec_two_digits (spec_channel (col_r c))
                      @ spec_two_digits (spec_channel (col_g c))
                      @ spec_two_digits (spec_channel (col_b c))"
      using r g b by (rule rgbaToHex_unit)
    have len: "length (rgbaToHex c) = 7"
      by (simp add: shape spec_two_digits_def)
    have "set (tl (rgbaToHex c)) = set (spec_two_digits (spec_channel (col_r c)))
            \<union> set (spec_two_digits (spec_channel (col_g c)))
            \<union> set (spec_two_digits (spec_channel (col_b c)))"
      unfolding shape by (simp del: set_simps add: set_append Un_assoc)
    then have low: "set (tl (rgbaToHex c)) \<subseteq> set ''0123456789abcdef''"
      using spec_two_digits_lower by blast
    from shape cl [OF r] cl [OF g] cl [OF b] double_mul_unit(3) [OF r] double_mul_unit(3) [OF g]
      double_mul_unit(3) [OF b] len low
    show ?thesis by blast
  qed
  note e1 = rgbaToHex_examples(1) and e2 = rgbaToHex_examples(2) and e3 = rgbaToHex_examples(3)
  from general e1 e2 e3 show ?thesis by blast
qed

theorem rgbaToHex_unit_cube_witness:
  "roundToDouble (3 / 10) = double_of_0_3
   \<and> 0 \<le> double_of_0_3 \<and> double_of_0_3 \<le> 1 \<and> (0::real) \<le> 1
   \<and> double_mul double_of_0_3 255 = 153 / 2
   \<and> spec_channel double_of_0_3 = 77 \<and> spec_channel 1 = 255 \<and> spec_channel 0 = 0
   \<and> round (double_of_0_3 * 255) = 76
   \<and> rgbaToHex \<lparr>col_r = double_of_0_3, col_g = 1, col_b = 0\<rparr> = ''#4dff00''"
proof -
  have d: "roundToDouble (3 / 10) = double_of_0_3" by code_simp
  have r: "0 \<le> double_of_0_3" "double_of_0_3 \<le> 1" by (simp_all add: double_of_0_3_def)
  have m: "double_mul double_of_0_3 255 = 153 / 2" by code_simp
  have ch: "spec_channel double_of_0_3 = 77" "spec_channel 1 = 255" "spec_channel 0 = 0"
    by code_simp+
  have ex: "round (double_of_0_3 * 255) = 76" by code_simp
  note dg = spec_two_digits_examples
  have "rgbaToHex \<lparr>col_r = double_of_0_3, col_g = 1, col_b = 0\<rparr> = ''#4dff00''"
    using rgbaToHex_unit_cube [of "\<lparr>col_r = double_of_0_3, col_g = 1, col_b = 0\<rparr>", THEN conjunct1]
      r ch dg by simp
  with d r m ch ex show ?thesis by simp
qed

section \<open>Outcomes at the boundary\<close>

lemma http_by_situation:
  "request_situation tok get fk cn = NoCredential \<Longrightarrow>
     fetch_component tok get fk cn
       = (\<lparr>status = 500, body = ErrorBody ''FIGMA_TOKEN not configured'' None\<rparr>, [])"
  "request_situation tok get fk cn = InvalidRequest \<Longrightarrow>
     fetch_component tok get fk cn
       = (\<lparr>status = 400, body = ErrorBody ''fileKey and componentName are required'' None\<rparr>, [])"
  "request_situation tok get fk cn = FetchFailed \<Longrightarrow>
     \<exists>d. fst (fetch_component tok get fk cn)
       = \<lparr>status = 500, body = ErrorBody ''Failed to fetch from Figma'' (Some d)\<rparr>"
  "request_situation tok get fk cn = NotFound \<Longrightarrow>
     fst (fetch_component tok get fk cn)
       = \<lparr>status = 404,
          body = ErrorBody (''Component '' @ quote_mark @ orStr cn [] @ quote_mark @ '' not found'') None\<rparr>"
  "request_situation tok get fk cn = Found \<Longrightarrow>
     \<exists>s m. fst (fetch_component tok get fk cn) = \<lparr>status = 200, body = SuccessBody s m\<rparr>"
  by (auto simp: request_situation_def fetch_component_def truthyStr_def orStr_def Let_def
      split: option.splits if_splits sum.splits)

lemma tool_by_situation:
  "tool_situation tok get fk nn = NoCredential \<Longrightarrow>
     callTool_generate_react_component f tok get fk nn
       = (Inl ''FIGMA_TOKEN environment variable is required'', [])"
  "tool_situation tok get fk nn = FetchFailed \<Longrightarrow>
     \<exists>e. get (files_url fk) (orStr tok []) = Inl e
        \<and> fst (callTool_generate_react_component f tok get fk nn)
            = Inl (''Failed to generate component: '' @ message e)"
  "tool_situation tok get fk nn = NotFound \<Longrightarrow>
     fst (callTool_generate_react_component f tok get fk nn)
       = Inl (''Failed to generate component: '' @ not_found_detail nn)"
  "tool_situation tok get fk nn = Found \<Longrightarrow>
     \<exists>code. fst (callTool_generate_react_component f tok get fk nn) = Inr code"
  "tool_situation tok get fk nn \<noteq> InvalidRequest"
  by (auto simp: tool_situation_def callTool_generate_react_component_def
        generateReactComponent_def truthyStr_def orStr_def not_found_detail_def
      split: option.splits if_splits sum.splits)

lemma http_distinct:
  assumes "request_situation tok1 get1 fk1 cn1 \<noteq> request_situation tok2 get2 fk2 cn2"
  shows "fst (fetch_component tok1 get1 fk1 cn1) \<noteq> fst (fetch_component tok2 get2 fk2 cn2)"
proof -
  have key: "status (fst (fetch_component tok get fk cn)) =
      (case request_situation tok get fk cn of
         NoCredential \<Rightarrow> 500 | InvalidRequest \<Rightarrow> 400 | FetchFailed \<Rightarrow> 500
       | NotFound \<Rightarrow> 404 | Found \<Rightarrow> 200)" for tok get fk cn
    using http_by_situation [of tok get fk cn]
    by (cases "request_situation tok get fk cn") auto
  have nc: "body (fst (fetch_component tok get fk cn)) = ErrorBody ''FIGMA_TOKEN not configured'' None"
    if "request_situation tok get fk cn = NoCredential" for tok get fk cn
    using http_by_situation(1) [OF that] by simp
  have ff: "body (fst (fetch_component tok get fk cn)) \<noteq> ErrorBody ''FIGMA_TOKEN not configured'' None"
    if "request_situation tok get fk cn = FetchFailed" for tok get fk cn
    using http_by_situation(3) [OF that] by auto
  show ?thesis
  proof
    assume eq: "fst (fetch_component tok1 get1 fk1 cn1) = fst (fetch_component tok2 get2 fk2 cn2)"
    then have st: "status (fst (fetch_component tok1 get1 fk1 cn1))
                     = status (fst (fetch_component tok2 get2 fk2 cn2))" by simp
    from eq have bd: "body (fst (fetch_component tok1 get1 fk1 cn1))
                     = body (fst (fetch_component tok2 get2 fk2 cn2))" by simp
    from assms st bd nc ff show False
      unfolding key
      by (cases "request_situation tok1 get1 fk1 cn1"; cases "request_situation tok2 get2 fk2 cn2")
         (simp_all, metis+)
  qed
qed

lemma tool_no_credential_distinct:
  assumes "tool_situation t1 g1 k1 n1 = NoCredential" "tool_situation t2 g2 k2 n2 \<noteq> NoCredential"
  shows "fst (callTool_generate_react_component f t1 g1 k1 n1)
           \<noteq> fst (callTool_generate_react_component f t2 g2 k2 n2)"
proof -
  have l: "fst (callTool_generate_react_component f t1 g1 k1 n1)
             = Inl ''FIGMA_TOKEN environment variable is required''"
    using tool_by_situation(1) [OF assms(1)] by simp
  have r: "fst (callTool_generate_react_component f t2 g2 k2 n2)
             \<noteq> Inl ''FIGMA_TOKEN environment variable is required''"
    using assms(2) tool_by_situation(2,3,4) [of t2 g2 k2 n2 f] tool_by_situation(5) [of t2 g2 k2 n2]
    by (cases "tool_situation t2 g2 k2 n2") auto
  from l r show ?thesis by simp
qed

lemma tool_distinct:
  assumes cA: "client_never_says_not_found gA" and cB: "client_never_says_not_found gB"
    and ne: "tool_situation tA gA kA nA \<noteq> tool_situation tB gB kB nB"
  shows "fst (callTool_generate_react_component f tA gA kA nA)
           \<noteq> fst (callTool_generate_react_component f tB gB kB nB)"
proof -
  have shape: "(tool_situation t g k n = NoCredential \<longrightarrow>
        fst (callTool_generate_react_component f t g k n)
          = Inl ''FIGMA_TOKEN environment variable is required'')
      \<and> (tool_situation t g k n = FetchFailed \<longrightarrow>
           (\<exists>e. g (files_url k) (orStr t []) = Inl e
              \<and> fst (callTool_generate_react_component f t g k n)
                  = Inl (''Failed to generate component: '' @ message e)))
      \<and> (tool_situation t g k n = NotFound \<longrightarrow>
           fst (callTool_generate_react_component f t g k n)
             = Inl (''Failed to generate component: '' @ not_found_detail n))
      \<and> (tool_situation t g k n = Found \<longrightarrow>
           (\<exists>code. fst (callTool_generate_react_component f t g k n) = Inr code))
      \<and> tool_situation t g k n \<noteq> InvalidRequest" for t g k n
    using tool_by_situation(1,2,3,4) [of t g k n f] tool_by_situation(5) [of t g k n]
    by simp
  have foreign: "message e \<noteq> not_found_detail n"
    if "client_never_says_not_found g" "g u t = Inl e" for g u t e n
    using that unfolding client_never_says_not_found_def by blast
  show ?thesis
  proof
    assume eq: "fst (callTool_generate_react_component f tA gA kA nA)
                  = fst (callTool_generate_react_component f tB gB kB nB)"
    consider "tool_situation tA gA kA nA = NoCredential" | "tool_situation tB gB kB nB = NoCredential"
      | "tool_situation tA gA kA nA \<noteq> NoCredential" "tool_situation tB gB kB nB \<noteq> NoCredential"
      by blast
    then show False
    proof cases
      case 1
      with ne have "tool_situation tB gB kB nB \<noteq> NoCredential" by simp
      from tool_no_credential_distinct [OF 1 this] eq show False by blast
    next
      case 2
      with ne have "tool_situation tA gA kA nA \<noteq> NoCredential" by simp
      from tool_no_credential_distinct [OF 2 this] eq show False by metis
    next
      case 3
      show False
      proof (cases "tool_situation tA gA kA nA")
        case NoCredential with 3 show False by simp
      next
        case InvalidRequest with shape [of tA gA kA nA] show False by simp
      next
        case FetchFailed
        with shape [of tA gA kA nA] obtain e where e: "gA (files_url kA) (orStr tA []) = Inl e"
          "fst (callTool_generate_react_component f tA gA kA nA)
             = Inl (''Failed to generate component: '' @ message e)" by blast
        from foreign [OF cA e(1)] have fe: "message e \<noteq> not_found_detail nB" .
        from ne FetchFailed 3 shape [of tB gB kB nB]
        consider "tool_situation tB gB kB nB = NotFound" | "tool_situation tB gB kB nB = Found"
          by (cases "tool_situation tB gB kB nB") auto
        then show False
        proof cases
          case 1
          with shape [of tB gB kB nB] eq e(2) fe show False by simp
        next
          case 2
          with shape [of tB gB kB nB] eq e(2) show False by auto
        qed
      next
        case NotFound
        with shape [of tA gA kA nA]
        have a: "fst (callTool_generate_react_component f tA gA kA nA)
             = Inl (''Failed to generate component: '' @ not_found_detail nA)" by blast
        from ne NotFound 3 shape [of tB gB kB nB]
        consider "tool_situation tB gB kB nB = FetchFailed" | "tool_situation tB gB kB nB = Found"
          by (cases "tool_situation tB gB kB nB") auto
        then show False
        proof cases
          case 1
          with shape [of tB gB kB nB] obtain e where e: "gB (files_url kB) (orStr tB []) = Inl e"
            "fst (callTool_generate_react_component f tB gB kB nB)
               = Inl (''Failed to generate component: '' @ message e)" by blast
          from foreign [OF cB e(1)] have "message e \<noteq> not_found_detail nA" .
          with eq a e(2) show False by simp
        next
          case 2
          with shape [of tB gB kB nB] eq a show False by auto
        qed
      next
        case Found
        with shape [of tA gA kA nA] obtain code where
          a: "fst (callTool_generate_react_component f tA gA kA nA) = Inr code" by blast
        from ne Found 3 shape [of tB gB kB nB]
        consider "tool_situation tB gB kB nB = FetchFailed" | "tool_situation tB gB kB nB = NotFound"
          by (cases "tool_situation tB gB kB nB") auto
        then show False
        proof cases
          case 1
          with shape [of tB gB kB nB] eq a show False by auto
        next
          case 2
          with shape [of tB gB kB nB] eq a show False by auto
        qed
      qed
    qed
  qed
qed

text \<open>
  Claim C7. At both boundaries a request whose node is not found, a request whose fetch
  failed and a request made without a credential have three different outcomes, and the
  no-credential outcome comes with no request made. In the demo server not-found is
  status 404, a failed fetch is status 500 with the error \<open>Failed to fetch from Figma\<close>,
  no credential is status 500 with the error \<open>FIGMA_TOKEN not configured\<close>. In the tool
  server no credential is the error \<open>FIGMA_TOKEN environment variable is required\<close>,
  while not-found and a failed fetch are errors whose message is
  \<open>Failed to generate component: \<close> followed by the not-found text or by the client's
  message; they differ because the client never produces the not-found text.
\<close>

theorem boundary_outcomes:
  "(request_situation tokA getA fkA cnA \<noteq> request_situation tokB getB fkB cnB \<longrightarrow>
      fst (fetch_component tokA getA fkA cnA) \<noteq> fst (fetch_component tokB getB fkB cnB))
   \<and> (request_situation tokA getA fkA cnA = NotFound \<longrightarrow>
        fst (fetch_component tokA getA fkA cnA)
          = \<lparr>status = 404,
             body = ErrorBody (''Component '' @ quote_mark @ orStr cnA [] @ quote_mark
                                 @ '' not found'') None\<rparr>)
   \<and> (request_situation tokA getA fkA cnA = FetchFailed \<longrightarrow>
        (\<exists>d. fst (fetch_component tokA getA fkA cnA)
           = \<lparr>status = 500, body = ErrorBody ''Failed to fetch from Figma'' (Some d)\<rparr>))
   \<and> (request_situation tokA getA fkA cnA = NoCredential \<longrightarrow>
        fetch_component tokA getA fkA cnA
          = (\<lparr>status = 500, body = ErrorBody ''FIGMA_TOKEN not configured'' None\<rparr>, []))
   \<and> (tool_situation tA gA kA nA = NoCredential \<longrightarrow>
        callTool_generate_react_component f tA gA kA nA
          = (Inl ''FIGMA_TOKEN environment variable is required'', []))
   \<and> (client_never_says_not_found gA \<and> client_never_says_not_found gB
        \<and> tool_situation tA gA kA nA \<noteq> tool_situation tB gB kB nB \<longrightarrow>
        fst (callTool_generate_react_component f tA gA kA nA)
          \<noteq> fst (callTool_generate_react_component f tB gB kB nB))
   \<and> (tool_situation tA gA kA nA = NotFound \<longrightarrow>
        fst (callTool_generate_react_component f tA gA kA nA)
          = Inl (''Failed to generate component: '' @ not_found_detail nA))
   \<and> (tool_situation tB gB kB nB = FetchFailed \<longrightarrow>
        (\<exists>e. gB (files_url kB) (orStr tB []) = Inl e
           \<and> fst (callTool_generate_react_component f tB gB kB nB)
               = Inl (''Failed to generate component: '' @ message e)))
   \<and> (tool_situation tA gA kA nA = Found \<longrightarrow>
        (\<exists>code. fst (callTool_generate_react_component f tA gA kA nA) = Inr code))"
proof -
  have a: "request_situation tokA getA fkA cnA \<noteq> request_situation tokB getB fkB cnB \<longrightarrow>
      fst (fetch_component tokA getA fkA cnA) \<noteq> fst (fetch_component tokB getB fkB cnB)"
    using http_distinct by blast
  have b: "request_situation tokA getA fkA cnA = NotFound \<longrightarrow>
        fst (fetch_component tokA getA fkA cnA)
          = \<lparr>status = 404,
             body = ErrorBody (''Component '' @ quote_mark @ orStr cnA [] @ quote_mark
                                 @ '' not found'') None\<rparr>"
    using http_by_situation(4) by blast
  have c: "request_situation tokA getA fkA cnA = FetchFailed \<longrightarrow>
        (\<exists>d. fst (fetch_component tokA getA fkA cnA)
           = \<lparr>status = 500, body = ErrorBody ''Failed to fetch from Figma'' (Some d)\<rparr>)"
    using http_by_situation(3) by blast
  have d: "request_situation tokA getA fkA cnA = NoCredential \<longrightarrow>
        fetch_component tokA getA fkA cnA
          = (\<lparr>status = 500, body = ErrorBody ''FIGMA_TOKEN not configured'' None\<rparr>, [])"
    using http_by_situation(1) by blast
  have e: "tool_situation tA gA kA nA = NoCredential \<longrightarrow>
        callTool_generate_react_component f tA gA kA nA
          = (Inl ''FIGMA_TOKEN environment variable is required'', [])"
    using tool_by_situation(1) by blast
  have g: "client_never_says_not_found gA \<and> client_never_says_not_found gB
        \<and> tool_situation tA gA kA nA \<noteq> tool_situation tB gB kB nB \<longrightarrow>
        fst (callTool_generate_react_component f tA gA kA nA)
          \<noteq> fst (callTool_generate_react_component f tB gB kB nB)"
    using tool_distinct by blast
  have h: "tool_situation tA gA kA nA = NotFound \<longrightarrow>
        fst (callTool_generate_react_component f tA gA kA nA)
          = Inl (''Failed to generate component: '' @ not_found_detail nA)"
    using tool_by_situation(3) by blast
  have i: "tool_situation tB gB kB nB = FetchFailed \<longrightarrow>
        (\<exists>e. gB (files_url kB) (orStr tB []) = Inl e
           \<and> fst (callTool_generate_react_component f tB gB kB nB)
               = Inl (''Failed to generate component: '' @ message e))"
    using tool_by_situation(2) by blast
  have j: "tool_situation tA gA kA nA = Found \<longrightarrow>
        (\<exists>code. fst (callTool_generate_react_component f tA gA kA nA) = Inr code)"
    using tool_by_situation(4) by blast
  show ?thesis
    by (intro conjI a b c d e g h i j)
qed

text \<open>Evaluation of the example requests.\<close>

lemmas situation_eval = request_situation_def tool_situation_def truthyStr_def orStr_def
  ex_get_document_def ex_get_403_def ex_get_error_def ex_token_def

lemma example_clients:
  "client_never_says_not_found ex_get_document"
  "client_never_says_not_found ex_get_403"
  by (simp_all add: client_never_says_not_found_def ex_get_document_def ex_get_403_def
        ex_get_error_def not_found_detail_def)

theorem boundary_outcomes_witness:
  "request_situation ex_token ex_get_document (Some ''FILEKEY'') (Some ''Card'') = NotFound
   \<and> request_situation ex_token ex_get_403 (Some ''FILEKEY'') (Some ''Card'') = FetchFailed
   \<and> request_situation None ex_get_document (Some ''FILEKEY'') (Some ''Card'') = NoCredential
   \<and> fst (fetch_component ex_token ex_get_document (Some ''FILEKEY'') (Some ''Card''))
       \<noteq> fst (fetch_component ex_token ex_get_403 (Some ''FILEKEY'') (Some ''Card''))
   \<and> fst (fetch_component ex_token ex_get_document (Some ''FILEKEY'') (Some ''Card''))
       \<noteq> fst (fetch_component None ex_get_document (Some ''FILEKEY'') (Some ''Card''))
   \<and> fst (fetch_component ex_token ex_get_403 (Some ''FILEKEY'') (Some ''Card''))
       \<noteq> fst (fetch_component None ex_get_document (Some ''FILEKEY'') (Some ''Card''))
   \<and> snd (fetch_component None ex_get_document (Some ''FILEKEY'') (Some ''Card'')) = []
   \<and> client_never_says_not_found ex_get_document \<and> client_never_says_not_found ex_get_403
   \<and> tool_situation ex_token ex_get_document ''FILEKEY'' ''Card'' = NotFound
   \<and> tool_situation ex_token ex_get_403 ''FILEKEY'' ''Card'' = FetchFailed
   \<and> tool_situation None ex_get_document ''FILEKEY'' ''Card'' = NoCredential
   \<and> fst (callTool_generate_react_component integerToString ex_token ex_get_document ''FILEKEY'' ''Card'')
       \<noteq> fst (callTool_generate_react_component integerToString ex_token ex_get_403 ''FILEKEY'' ''Card'')
   \<and> fst (callTool_generate_react_component integerToString None ex_get_document ''FILEKEY'' ''Card'')
       \<noteq> fst (callTool_generate_react_component integerToString ex_token ex_get_document ''FILEKEY'' ''Card'')
   \<and> fst (callTool_generate_react_component integerToString None ex_get_document ''FILEKEY'' ''Card'')
       \<noteq> fst (callTool_generate_react_component integerToString ex_token ex_get_403 ''FILEKEY'' ''Card'')
   \<and> snd (callTool_generate_react_component integerToString None ex_get_document ''FILEKEY'' ''Card'') = []
   \<and> fst (callTool_generate_react_component integerToString ex_token ex_get_document ''FILEKEY'' ''Card'')
       = Inl (''Failed to generate component: '' @ not_found_detail ''Card'')
   \<and> fst (callTool_generate_react_component integerToString ex_token ex_get_403 ''FILEKEY'' ''Card'')
       = Inl (''Failed to generate component: '' @ ''Request failed with status code 403'')"
proof -
  let ?key = "Some ''FILEKEY''" and ?card = "Some ''Card''"
  note tool = conjunct2 [THEN conjunct2, THEN conjunct2, THEN conjunct2]
  have nf: "request_situation ex_token ex_get_document ?key ?card = NotFound"
    by (simp add: situation_eval ex_doc_def bare_def)
  have ff: "request_situation ex_token ex_get_403 ?key ?card = FetchFailed"
    by (simp add: situation_eval)
  have nc: "request_situation None ex_get_document ?key ?card = NoCredential"
    by (simp add: situation_eval)
  have tnf: "tool_situation ex_token ex_get_document ''FILEKEY'' ''Card'' = NotFound"
    by (simp add: situation_eval ex_doc_def bare_def)
  have tff: "tool_situation ex_token ex_get_403 ''FILEKEY'' ''Card'' = FetchFailed"
    by (simp add: situation_eval)
  have tnc: "tool_situation None ex_get_document ''FILEKEY'' ''Card'' = NoCredential"
    by (simp add: situation_eval)
  have d1: "fst (fetch_component ex_token ex_get_document ?key ?card)
       \<noteq> fst (fetch_component ex_token ex_get_403 ?key ?card)"
    using boundary_outcomes [of ex_token ex_get_document ?key ?card ex_token ex_get_403 ?key ?card,
        THEN conjunct1] nf ff by simp
  have d2: "fst (fetch_component ex_token ex_get_document ?key ?card)
       \<noteq> fst (fetch_component None ex_get_document ?key ?card)"
    using boundary_outcomes [of ex_token ex_get_document ?key ?card None ex_get_document ?key ?card,
        THEN conjunct1] nf nc by simp
  have d3: "fst (fetch_component ex_token ex_get_403 ?key ?card)
       \<noteq> fst (fetch_component None ex_get_document ?key ?card)"
    using boundary_outcomes [of ex_token ex_get_403 ?key ?card None ex_get_document ?key ?card,
        THEN conjunct1] ff nc by simp
  have d4: "snd (fetch_component None ex_get_document ?key ?card) = []"
    using boundary_outcomes [of None ex_get_document ?key ?card,
        THEN conjunct2, THEN conjunct2, THEN conjunct2, THEN conjunct1] nc by simp
  have t0: "callTool_generate_react_component integerToString None ex_get_document ''FILEKEY'' ''Card''
              = (Inl ''FIGMA_TOKEN environment variable is required'', [])"
    using boundary_outcomes [where tA = None and gA = ex_get_document and kA = "''FILEKEY''"
        and nA = "''Card''" and f = integerToString, THEN tool, THEN conjunct1] tnc by simp
  have u0: "fst (callTool_generate_react_component integerToString ex_token ex_get_document ''FILEKEY'' ''Card'')
       \<noteq> fst (callTool_generate_react_component integerToString ex_token ex_get_403 ''FILEKEY'' ''Card'')"
    using boundary_outcomes [where tA = ex_token and gA = ex_get_document and kA = "''FILEKEY''"
        and nA = "''Card''" and tB = ex_token and gB = ex_get_403
        and kB = "''FILEKEY''" and nB = "''Card''" and f = integerToString,
        THEN tool, THEN conjunct2, THEN conjunct1] example_clients tnf tff by simp
  have u1: "fst (callTool_generate_react_component integerToString None ex_get_document ''FILEKEY'' ''Card'')
       \<noteq> fst (callTool_generate_react_component integerToString ex_token ex_get_document ''FILEKEY'' ''Card'')"
    using boundary_outcomes [where tA = None and gA = ex_get_document and kA = "''FILEKEY''"
        and nA = "''Card''" and tB = ex_token and gB = ex_get_document
        and kB = "''FILEKEY''" and nB = "''Card''" and f = integerToString,
        THEN tool, THEN conjunct2, THEN conjunct1] example_clients tnc tnf by simp
  have u2: "fst (callTool_generate_react_component integerToString None ex_get_document ''FILEKEY'' ''Card'')
       \<noteq> fst (callTool_generate_react_component integerToString ex_token ex_get_403 ''FILEKEY'' ''Card'')"
    using boundary_outcomes [where tA = None and gA = ex_get_document and kA = "''FILEKEY''"
        and nA = "''Card''" and tB = ex_token and gB = ex_get_403
        and kB = "''FILEKEY''" and nB = "''Card''" and f = integerToString,
        THEN tool, THEN conjunct2, THEN conjunct1] example_clients tnc tff by simp
  have t3: "fst (callTool_generate_react_component integerToString ex_token ex_get_document ''FILEKEY'' ''Card'')
       = Inl (''Failed to generate component: '' @ not_found_detail ''Card'')"
    using boundary_outcomes [where tA = ex_token and gA = ex_get_document and kA = "''FILEKEY''"
        and nA = "''Card''" and f = integerToString,
        THEN tool, THEN conjunct2, THEN conjunct2, THEN conjunct1] tnf by simp
  have "\<exists>e. ex_get_403 (files_url ''FILEKEY'') (orStr ex_token []) = Inl e
           \<and> fst (callTool_generate_react_component integerToString ex_token ex_get_403 ''FILEKEY'' ''Card'')
               = Inl (''Failed to generate component: '' @ message e)"
    using boundary_outcomes [where tB = ex_token and gB = ex_get_403 and kB = "''FILEKEY''"
        and nB = "''Card''" and f = integerToString,
        THEN tool, THEN conjunct2, THEN conjunct2, THEN conjunct2, THEN conjunct1] tff by simp
  then have t4: "fst (callTool_generate_react_component integerToString ex_token ex_get_403 ''FILEKEY'' ''Card'')
       = Inl (''Failed to generate component: '' @ ''Request failed with status code 403'')"
    by (auto simp: ex_get_403_def ex_get_error_def)
  from nf ff nc d1 d2 d3 d4 example_clients tnf tff tnc t0 u0 u1 u2 t3 t4 show ?thesis
    by (simp del: append.simps)
qed

section \<open>Component enumeration\<close>

lemma extractComponents_acc:
  "extractComponents t acc = acc @ map (\<lambda>x. describe (attrs x)) (filter (\<lambda>x. collected (attrs x)) (preorder t))"
  "extractComponents_forEach cs acc = acc @ map (\<lambda>x. describe (attrs x)) (filter (\<lambda>x. collected (attrs x)) (preorder_list cs))"
  by (induction t acc and cs acc rule: extractComponents_extractComponents_forEach.induct)
     (auto split: option.splits)

text \<open>
  Claim C8. \<open>extractComponents\<close> visits every node of the tree in document order (depth
  first, pre-order) and returns one descriptor for exactly the nodes of type
  \<open>COMPONENT\<close>, \<open>FRAME\<close> or \<open>RECTANGLE\<close>, in that order; descriptors are appended to the
  array passed in. A \<open>COMPONENT\<close> whose only child is a \<open>TEXT\<close> node yields one descriptor.
\<close>

theorem extractComponents_document_order:
  "extractComponents t [] =
     map (\<lambda>x. describe (attrs x)) (filter (\<lambda>x. collected (attrs x)) (preorder t))
   \<and> extractComponents t components = components @ extractComponents t []
   \<and> (\<forall>a. collected a =
         (node_type a = ''COMPONENT'' \<or> node_type a = ''FRAME'' \<or> node_type a = ''RECTANGLE''))
   \<and> length (extractComponents t []) = length (filter (\<lambda>x. collected (attrs x)) (preorder t))
   \<and> map d_id (extractComponents t [])
        = map (\<lambda>x. node_id (attrs x)) (filter (\<lambda>x. collected (attrs x)) (preorder t))
   \<and> length (extractComponents ex_component_with_text []) = 1
   \<and> map d_type (extractComponents ex_component_with_text []) = [''COMPONENT'']"
proof -
  have a: "extractComponents t [] =
     map (\<lambda>x. describe (attrs x)) (filter (\<lambda>x. collected (attrs x)) (preorder t))"
    by (simp add: extractComponents_acc(1))
  have b: "extractComponents t components = components @ extractComponents t []"
    by (simp add: extractComponents_acc(1))
  have c: "\<forall>a. collected a =
         (node_type a = ''COMPONENT'' \<or> node_type a = ''FRAME'' \<or> node_type a = ''RECTANGLE'')"
    by (simp add: collected_def)
  have d: "length (extractComponents t []) = length (filter (\<lambda>x. collected (attrs x)) (preorder t))"
    by (simp add: a)
  have e: "map d_id (extractComponents t [])
        = map (\<lambda>x. node_id (attrs x)) (filter (\<lambda>x. collected (attrs x)) (preorder t))"
    by (simp add: a describe_def)
  have f: "length (extractComponents ex_component_with_text []) = 1"
    by (simp add: ex_component_with_text_def bare_def collected_def)
  have g: "map d_type (extractComponents ex_component_with_text []) = [''COMPONENT'']"
    by (simp add: ex_component_with_text_def bare_def collected_def describe_def)
  from a b c d e f g show ?thesis by blast
qed

section \<open>Identifier of the generated component\<close>

lemma split_on_nonempty: "split_on sep s \<noteq> []"
  by (induction s) (auto split: list.splits)

lemma capitalize_spec: "capitalize w = spec_capitalize w"
  by (cases w) (simp_all add: capitalize_def spec_capitalize_def toUpperCase_def toLowerCase_def)

lemma space_not_alnum: "\<not> isAlnum (CHR '' '')"
  by (simp add: isAlnum_def)

text \<open>The pieces between the spaces, the empty ones dropped, are the alphanumeric runs.\<close>

lemma alnum_runs_split:
  "alnum_runs cur s =
     (case split_on (CHR '' '') (replaceNonAlnum s) of
        p # ps \<Rightarrow> filter (\<lambda>w. w \<noteq> []) ((cur @ p) # ps)
      | [] \<Rightarrow> [])"
proof (induction s arbitrary: cur)
  case Nil
  then show ?case by (simp add: replaceNonAlnum_def)
next
  case (Cons c s)
  obtain p ps where sp: "split_on (CHR '' '') (replaceNonAlnum s) = p # ps"
    using split_on_nonempty [of "CHR '' ''" "replaceNonAlnum s"] by (cases "split_on (CHR '' '') (replaceNonAlnum s)") auto
  show ?case
  proof (cases "isAlnum c")
    case True
    then have "c \<noteq> CHR '' ''" using space_not_alnum by auto
    with True sp Cons.IH [of "cur @ [c]"] show ?thesis
      using sp by (simp add: replaceNonAlnum_def)
  next
    case False
    with sp Cons.IH [of "[]"] show ?thesis
      using sp by (simp add: replaceNonAlnum_def)
  qed
qed

lemma concat_capitalize_filter:
  "concat (map capitalize (filter (\<lambda>w. w \<noteq> []) ws)) = concat (map capitalize ws)"
  by (induction ws) (auto simp: capitalize_def toUpperCase_def toLowerCase_def)

lemma toPascalCase_spec: "toPascalCase s = spec_identifier s"
proof -
  obtain p ps where sp: "split_on (CHR '' '') (replaceNonAlnum s) = p # ps"
    using split_on_nonempty [of "CHR '' ''" "replaceNonAlnum s"] by (cases "split_on (CHR '' '') (replaceNonAlnum s)") auto
  have "alnum_runs [] s = filter (\<lambda>w. w \<noteq> []) (split_on (CHR '' '') (replaceNonAlnum s))"
    using alnum_runs_split [of "[]" s] sp by simp
  then have "spec_identifier s
      = concat (map capitalize (filter (\<lambda>w. w \<noteq> []) (split_on (CHR '' '') (replaceNonAlnum s))))"
    by (simp add: spec_identifier_def capitalize_spec [abs_def])
  then show ?thesis
    by (simp add: concat_capitalize_filter toPascalCase_def)
qed

lemma generateReactCode_prefix:
  "\<exists>rest. generateReactCode numToString nd =
     ''import React from 'react';\<newline>\<newline>export function '' @ toPascalCase (name (attrs nd))
       @ ''({ onClick, children }) {'' @ rest"
  by (simp add: generateReactCode_def split: prod.splits)

text \<open>
  Claim C9. The identifier the generator emits after \<open>export function\<close> is
  \<open>toPascalCase\<close> of the node's name: every character that is not a letter or digit
  becomes a space, the result is split at spaces, each word gets its first letter
  uppercased and the rest lowercased, and the words are concatenated; that is, the
  capitalised maximal alphanumeric runs of the name, concatenated. The name
  \<open>primary-cta!!\<close> gives \<open>PrimaryCta\<close>.
\<close>

theorem toPascalCase_capitalized_words:
  "toPascalCase s = concat (map spec_capitalize (alnum_runs [] s))
   \<and> toPascalCase s = concat (map capitalize (split_on (CHR '' '') (replaceNonAlnum s)))
   \<and> (\<exists>rest. generateReactCode numToString nd =
         ''import React from 'react';\<newline>\<newline>export function '' @ toPascalCase (name (attrs nd))
           @ ''({ onClick, children }) {'' @ rest)
   \<and> alnum_runs [] ''primary-cta!!'' = [''primary'', ''cta'']
   \<and> toPascalCase ''primary-cta!!'' = ''PrimaryCta''"
proof -
  have a: "toPascalCase s = concat (map spec_capitalize (alnum_runs [] s))"
    using toPascalCase_spec [of s] by (simp add: spec_identifier_def)
  have b: "toPascalCase s = concat (map capitalize (split_on (CHR '' '') (replaceNonAlnum s)))"
    by (simp add: toPascalCase_def)
  have d: "alnum_runs [] ''primary-cta!!'' = [''primary'', ''cta'']"
    by (simp add: isAlnum_def)
  have e: "toPascalCase ''primary-cta!!'' = ''PrimaryCta''"
    by (simp add: toPascalCase_def replaceNonAlnum_def isAlnum_def capitalize_def
          toUpperCase_def toLowerCase_def upperChar_def lowerChar_def)
  show ?thesis
    by (intro conjI a b generateReactCode_prefix d e)
qed

section \<open>Zero is defaulted like an absent value\<close>

lemma member_sublist_concat: "l \<in> set ls \<Longrightarrow> sublist l (concat ls)"
proof -
  assume "l \<in> set ls"
  then obtain as bs where "ls = as @ l # bs" by (auto simp: in_set_conv_decomp)
  then have "concat ls = concat as @ l @ concat bs" by simp
  then show ?thesis by (simp only: sublist_appendI)
qed

lemma sublist_within: "sublist ys zs \<Longrightarrow> sublist xs ys \<Longrightarrow> sublist xs zs"
  unfolding sublist_def by (metis append.assoc)

lemma reactStyle_fields:
  "fst (reactStyle nd) = orNum (Option.bind (absoluteBoundingBox (attrs nd)) width) 200"
  "fst (snd (reactStyle nd)) = orNum (Option.bind (absoluteBoundingBox (attrs nd)) height) 50"
  "fst (snd (snd (reactStyle nd))) = orNum (cornerRadius (attrs nd)) 8"
  by (simp_all add: reactStyle_def Let_def)

lemma generateReactCode_radius_line:
  "sublist (''        borderRadius: '' @ apostrophe
              @ numToString (orNum (cornerRadius (attrs nd)) 8) @ ''px'' @ apostrophe @ '',\<newline>'')
     (generateReactCode numToString nd)"
proof -
  obtain w h cr bg tx where rs: "reactStyle nd = (w, h, cr, bg, tx)"
    by (cases "reactStyle nd") auto
  then have cr: "cr = orNum (cornerRadius (attrs nd)) 8"
    using reactStyle_fields(3) [of nd] by simp
  show ?thesis
    unfolding generateReactCode_def rs prod.case cr [symmetric]
    by (rule member_sublist_concat) (simp del: append.simps append_assoc)
qed

lemma radius_irrelevant:
  "extractBackground (a\<lparr>cornerRadius := x\<rparr>) = extractBackground a"
  "firstFillColor (a\<lparr>cornerRadius := x\<rparr>) = firstFillColor a"
  "detectType (a\<lparr>cornerRadius := x\<rparr>) r hb fw = detectType a r hb fw"
  "extractText (Node (a\<lparr>cornerRadius := x\<rparr>) ch) = extractText (Node a ch)"
  by (simp_all add: extractBackground_def firstFillColor_def detectType_def Let_def)

lemma radius_irrelevant_textColor:
  "extractTextColor (Node (a\<lparr>cornerRadius := x\<rparr>) ch) = extractTextColor (Node a ch)"
  by (cases "node_type a = ''TEXT''")
     (auto simp: extractTextColor_def radius_irrelevant(2) split: option.splits)

lemma radius_irrelevant_font:
  "extractFont (Node (a\<lparr>cornerRadius := x\<rparr>) ch) = extractFont (Node a ch)"
  by (cases "node_type a = ''TEXT''") (auto simp: extractFont_def split: option.splits)

lemma zero_radius_same_style:
  "extractComponentStyle (Node (a\<lparr>cornerRadius := Some 0\<rparr>) ch)
     = extractComponentStyle (Node (a\<lparr>cornerRadius := None\<rparr>) ch)"
proof -
  have r: "orNum (Some 0) d = orNum None d" for d by (simp add: orNum_def)
  show ?thesis
    by (simp add: extractComponentStyle_def Let_def radius_irrelevant
          radius_irrelevant_textColor radius_irrelevant_font r)
qed

lemma zero_radius_same_code:
  "generateReactCode numToString (Node (a\<lparr>cornerRadius := Some 0\<rparr>) ch)
     = generateReactCode numToString (Node (a\<lparr>cornerRadius := None\<rparr>) ch)"
proof -
  have r: "orNum (Some 0) d = orNum None d" for d by (simp add: orNum_def)
  have "reactStyle (Node (a\<lparr>cornerRadius := Some 0\<rparr>) ch)
          = reactStyle (Node (a\<lparr>cornerRadius := None\<rparr>) ch)"
    by (simp add: reactStyle_def Let_def radius_irrelevant r)
  then show ?thesis
    by (simp add: generateReactCode_def)
qed

text \<open>
  Claim C10. A numeric attribute that is present and zero is defaulted like an absent
  one. A bounding box with width 0 or height 0 gives width 200 or height 50, in the style
  extractor and in the framework generator. A resolved text node with font size 0 gives
  16 and with font weight 0 gives 400. A corner radius of 0 gives the same style record
  and the same generated code as an absent corner radius: border radius 0 in the style
  record, 8 in the generator, whose output then contains \<open>borderRadius: '8px',\<close>.
\<close>

theorem zero_defaults_like_absent:
  "(\<forall>bb. absoluteBoundingBox (attrs nd) = Some bb \<and> width bb = Some 0 \<longrightarrow>
        style_width (extractComponentStyle nd) = 200 \<and> fst (reactStyle nd) = 200)
   \<and> (\<forall>bb. absoluteBoundingBox (attrs nd) = Some bb \<and> height bb = Some 0 \<longrightarrow>
        style_height (extractComponentStyle nd) = 50 \<and> fst (snd (reactStyle nd)) = 50)
   \<and> (\<forall>textNode.
         (if node_type (attrs nd) = ''TEXT'' then Some nd else findTextNode nd) = Some textNode
         \<and> fontSize (attrs textNode) = Some 0 \<longrightarrow>
         style_fontSize (extractComponentStyle nd) = 16)
   \<and> (\<forall>textNode.
         (if node_type (attrs nd) = ''TEXT'' then Some nd else findTextNode nd) = Some textNode
         \<and> fontWeight (attrs textNode) = Some 0 \<longrightarrow>
         style_fontWeight (extractComponentStyle nd) = 400)
   \<and> extractComponentStyle (Node (a\<lparr>cornerRadius := Some 0\<rparr>) ch)
       = extractComponentStyle (Node (a\<lparr>cornerRadius := None\<rparr>) ch)
   \<and> style_borderRadius (extractComponentStyle (Node (a\<lparr>cornerRadius := Some 0\<rparr>) ch)) = 0
   \<and> generateReactCode numToString (Node (a\<lparr>cornerRadius := Some 0\<rparr>) ch)
       = generateReactCode numToString (Node (a\<lparr>cornerRadius := None\<rparr>) ch)
   \<and> fst (snd (snd (reactStyle (Node (a\<lparr>cornerRadius := Some 0\<rparr>) ch)))) = 8
   \<and> (cornerRadius (attrs nd) = Some 0 \<and> numToString 8 = ''8'' \<longrightarrow>
         sublist ''borderRadius: '8px','' (generateReactCode numToString nd))"
proof -
  have w: "\<forall>bb. absoluteBoundingBox (attrs nd) = Some bb \<and> width bb = Some 0 \<longrightarrow>
        style_width (extractComponentStyle nd) = 200 \<and> fst (reactStyle nd) = 200"
    by (simp add: style_fields(2) reactStyle_fields(1) orNum_def)
  have h: "\<forall>bb. absoluteBoundingBox (attrs nd) = Some bb \<and> height bb = Some 0 \<longrightarrow>
        style_height (extractComponentStyle nd) = 50 \<and> fst (snd (reactStyle nd)) = 50"
    by (simp add: style_fields(3) reactStyle_fields(2) orNum_def)
  have fs: "\<forall>textNode.
         (if node_type (attrs nd) = ''TEXT'' then Some nd else findTextNode nd) = Some textNode
         \<and> fontSize (attrs textNode) = Some 0 \<longrightarrow>
         style_fontSize (extractComponentStyle nd) = 16"
    by (simp add: style_fields(8) extractFont_def orNum_def)
  have fw: "\<forall>textNode.
         (if node_type (attrs nd) = ''TEXT'' then Some nd else findTextNode nd) = Some textNode
         \<and> fontWeight (attrs textNode) = Some 0 \<longrightarrow>
         style_fontWeight (extractComponentStyle nd) = 400"
    by (simp add: style_fields(9) extractFont_def orNum_def)
  have r0: "style_borderRadius (extractComponentStyle (Node (a\<lparr>cornerRadius := Some 0\<rparr>) ch)) = 0"
    by (simp add: style_fields(4) orNum_def)
  have r8: "fst (snd (snd (reactStyle (Node (a\<lparr>cornerRadius := Some 0\<rparr>) ch)))) = 8"
    by (simp add: reactStyle_fields(3) orNum_def)
  have px: "cornerRadius (attrs nd) = Some 0 \<and> numToString 8 = ''8'' \<longrightarrow>
         sublist ''borderRadius: '8px','' (generateReactCode numToString nd)"
  proof
    assume asm: "cornerRadius (attrs nd) = Some 0 \<and> numToString 8 = ''8''"
    then have "orNum (cornerRadius (attrs nd)) 8 = 8" by (simp add: orNum_def)
    with asm generateReactCode_radius_line [of numToString nd]
    have line: "sublist (''        borderRadius: '' @ apostrophe @ ''8'' @ ''px'' @ apostrophe @ '',\<newline>'')
                  (generateReactCode numToString nd)"
      by simp
    have "sublist ''borderRadius: '8px','' (''        borderRadius: '' @ apostrophe @ ''8'' @ ''px'' @ apostrophe @ '',\<newline>'')"
      by (simp add: apostrophe_def sublist_Cons_right)
    with line show "sublist ''borderRadius: '8px','' (generateReactCode numToString nd)"
      by (rule sublist_within)
  qed
  show ?thesis
    by (intro conjI w h fs fw zero_radius_same_style r0 zero_radius_same_code r8 px)
qed

theorem zero_defaults_like_absent_witness:
  "absoluteBoundingBox (attrs ex_zero_box) = Some \<lparr>width = Some 0, height = Some 0\<rparr>
   \<and> style_width (extractComponentStyle ex_zero_box) = 200
   \<and> style_height (extractComponentStyle ex_zero_box) = 50
   \<and> fst (reactStyle ex_zero_box) = 200 \<and> fst (snd (reactStyle ex_zero_box)) = 50
   \<and> findTextNode ex_zero_box
       = Some (Node ((bare ''6:2'' ''Caption'' ''TEXT'')
                       \<lparr>characters := Some ''New'', fontSize := Some 0, fontWeight := Some 0\<rparr>) None)
   \<and> style_fontSize (extractComponentStyle ex_zero_box) = 16
   \<and> style_fontWeight (extractComponentStyle ex_zero_box) = 400
   \<and> cornerRadius (attrs ex_zero_box) = Some 0
   \<and> integerToString 8 = ''8''
   \<and> sublist ''borderRadius: '8px','' (generateReactCode integerToString ex_zero_box)"
proof -
  let ?cap = "Node ((bare ''6:2'' ''Caption'' ''TEXT'')
                       \<lparr>characters := Some ''New'', fontSize := Some 0, fontWeight := Some 0\<rparr>) None"
  note T = zero_defaults_like_absent [of ex_zero_box _ _ integerToString]
  have bb: "absoluteBoundingBox (attrs ex_zero_box) = Some \<lparr>width = Some 0, height = Some 0\<rparr>"
    by (simp add: ex_zero_box_def bare_def)
  have ft: "findTextNode ex_zero_box = Some ?cap"
    by (simp add: ex_zero_box_def bare_def)
  have ty: "node_type (attrs ex_zero_box) \<noteq> ''TEXT''"
    by (simp add: ex_zero_box_def bare_def)
  have cap: "fontSize (attrs ?cap) = Some 0" "fontWeight (attrs ?cap) = Some 0"
    by (simp_all add: bare_def)
  have cr: "cornerRadius (attrs ex_zero_box) = Some 0"
    by (simp add: ex_zero_box_def bare_def)
  have n8: "integerToString 8 = ''8''"
    by (simp add: integerToString_def decimalDigits.simps)
  have w: "style_width (extractComponentStyle ex_zero_box) = 200 \<and> fst (reactStyle ex_zero_box) = 200"
    using T [THEN conjunct1, rule_format, of "\<lparr>width = Some 0, height = Some 0\<rparr>"] bb by simp
  have h: "style_height (extractComponentStyle ex_zero_box) = 50 \<and> fst (snd (reactStyle ex_zero_box)) = 50"
    using T [THEN conjunct2, THEN conjunct1, rule_format, of "\<lparr>width = Some 0, height = Some 0\<rparr>"] bb
    by simp
  have fs: "style_fontSize (extractComponentStyle ex_zero_box) = 16"
    using T [THEN conjunct2, THEN conjunct2, THEN conjunct1, rule_format, of ?cap] ft ty cap
    by simp
  have fw: "style_fontWeight (extractComponentStyle ex_zero_box) = 400"
    using T [THEN conjunct2, THEN conjunct2, THEN conjunct2, THEN conjunct1, rule_format, of ?cap]
      ft ty cap
    by simp
  have px: "sublist ''borderRadius: '8px','' (generateReactCode integerToString ex_zero_box)"
    using T [THEN conjunct2, THEN conjunct2, THEN conjunct2, THEN conjunct2, THEN conjunct2,
        THEN conjunct2, THEN conjunct2, THEN conjunct2] cr n8
    by simp
  from bb w h ft fs fw cr n8 px show ?thesis by simp
qed

end
